theory Spec2Isabelle
  imports Complex_Main
begin

section \<open>Common Python notions\<close>

text \<open>
  Exceptions that the modelled code can raise and that it does not catch itself.
  A function that can raise returns \<open>py_error + 'a\<close>, with \<open>Inl\<close> for the exception.
\<close>

datatype py_error = AttributeError | TypeError | ZeroDivisionError | KeyError

text \<open>
  Decimal formatting of a non-negative integer: \<open>str_nat n\<close> is Python's \<open>str(n)\<close>,
  \<open>fmt_d w n\<close> is the format specification \<open>{n:0wd}\<close> (zero padding on the left up to
  width \<open>w\<close>, never truncating).
\<close>

definition digit_char :: "nat \<Rightarrow> char" where
  "digit_char d = char_of (48 + d)"

fun str_nat :: "nat \<Rightarrow> string" where
  "str_nat n = (if n < 10 then [digit_char n] else str_nat (n div 10) @ [digit_char (n mod 10)])"

declare str_nat.simps [simp del]

definition fmt_d :: "nat \<Rightarrow> nat \<Rightarrow> string" where
  "fmt_d w n = replicate (w - length (str_nat n)) (CHR ''0'') @ str_nat n"

text \<open>Reading a string of decimal digits back; used to show that formatting is injective.\<close>

definition digits_value :: "string \<Rightarrow> nat" where
  "digits_value s = foldl (\<lambda>a c. 10 * a + (of_char c - 48)) 0 s"

text \<open>
  \<open>datetime.now().isoformat()\<close> is an input of the model: a function \<open>now\<close> gives the
  string returned by the k-th call made during one run of a state or handler.
\<close>

type_synonym clock = "nat \<Rightarrow> string"

section \<open>Lab 3: goals and the response state machine\<close>

datatype RescueGoal =
    ASSESS_SITUATION
  | DEPLOY_RESOURCES
  | EVACUATE_CIVILIANS
  | PROVIDE_MEDICAL_AID
  | RESTORE_INFRASTRUCTURE
  | MONITOR_RECOVERY

record Goal =
  goal_id :: string
  goal_type :: RescueGoal
  priority :: int
  status :: string
  created_at :: string
  completed_at :: "string option"

text \<open>The six state names of the machine (\<open>STATE_IDLE = "IDLE"\<close> and so on).\<close>

datatype fsm_state =
    STATE_IDLE
  | STATE_ANALYZING
  | STATE_PLANNING
  | STATE_RESPONDING
  | STATE_MONITORING
  | STATE_COMPLETED

text \<open>
  The decoded alert is a dictionary that the states read with \<open>.get\<close>: every key may be
  absent. The values have the types that the sensor of this lab gives them
  (\<open>SensorAgent._generate_disaster_event\<close>).
\<close>

record event_data =
  ed_event_id :: "string option"
  ed_disaster_type :: "string option"
  ed_severity :: "int option"
  ed_severity_name :: "string option"

text \<open>
  What \<open>json.loads\<close> can return. Only a dictionary has a \<open>get\<close> method. The decoder itself
  is the Python standard library's and is a parameter \<open>loads\<close> of the model; \<open>None\<close> stands
  for \<open>json.JSONDecodeError\<close>.
\<close>

datatype json =
    JObject event_data
  | JArray "json list"
  | JString string
  | JNumber int
  | JBool bool
  | JNull

type_synonym decoder = "string \<Rightarrow> json option"

text \<open>An incoming message; SPADE's \<open>Message.body\<close> is a string or \<open>None\<close>.\<close>

record message =
  sender :: string
  body :: "string option"

text \<open>One entry of \<open>fsm_trace\<close>: the three keys every entry has, and the remaining ones.\<close>

datatype trace_value = TStr string | TInt int | TNone

record trace_entry =
  te_state :: fsm_state
  te_timestamp :: string
  te_action :: string
  te_counters :: "(string \<times> trace_value) list"

record ResponseAgent =
  current_event :: "event_data option"
  goals :: "Goal list"
  fsm_trace :: "trace_entry list"

text \<open>\<open>ResponseAgent.setup\<close>: no event, no goal, empty trace.\<close>

definition ResponseAgent_setup :: ResponseAgent where
  "ResponseAgent_setup = \<lparr>current_event = None, goals = [], fsm_trace = []\<rparr>"

subsection \<open>PLANNING\<close>

text \<open>
  \<open>PlanningState._generate_response_goals\<close>. The list \<open>basic_goals\<close> is built first, then one
  \<open>Goal\<close> per pair, numbered from \<open>len(self.agent.goals) + 1\<close>; the k-th goal takes the k-th
  timestamp.
\<close>

definition basic_goals :: "int \<Rightarrow> (RescueGoal \<times> int) list" where
  "basic_goals severity =
     [(DEPLOY_RESOURCES, 5), (EVACUATE_CIVILIANS, 5)]
     @ (if severity \<ge> 3 then [(PROVIDE_MEDICAL_AID, 4)] else [])
     @ (if severity \<ge> 4 then [(RESTORE_INFRASTRUCTURE, 3)] else [])
     @ [(MONITOR_RECOVERY, 2)]"

fun create_goal_objects :: "clock \<Rightarrow> nat \<Rightarrow> nat \<Rightarrow> (RescueGoal \<times> int) list \<Rightarrow> Goal list" where
  "create_goal_objects now k goal_counter [] = []"
| "create_goal_objects now k goal_counter ((gt, p) # rest) =
     \<lparr>goal_id = ''GOAL-'' @ fmt_d 3 (goal_counter + 1),
      goal_type = gt,
      priority = p,
      status = ''pending'',
      created_at = now k,
      completed_at = None\<rparr>
     # create_goal_objects now (k + 1) (goal_counter + 1) rest"

definition generate_response_goals :: "clock \<Rightarrow> ResponseAgent \<Rightarrow> int \<Rightarrow> Goal list" where
  "generate_response_goals now ag severity =
     create_goal_objects now 0 (length (goals ag)) (basic_goals severity)"

text \<open>
  \<open>PlanningState.run\<close>. \<open>event.get\<close> on \<open>None\<close> raises \<open>AttributeError\<close>. The trace entry is
  stamped after the goals have been created.
\<close>

definition PlanningState_run :: "clock \<Rightarrow> ResponseAgent \<Rightarrow> py_error + (ResponseAgent \<times> fsm_state)" where
  "PlanningState_run now ag =
     (case current_event ag of
        None \<Rightarrow> Inl AttributeError
      | Some event \<Rightarrow>
          (let severity = (case ed_severity event of None \<Rightarrow> 1 | Some s \<Rightarrow> s);
               response_goals = generate_response_goals now ag severity
           in Inr (ag\<lparr>goals := goals ag @ response_goals,
                        fsm_trace := fsm_trace ag @
                          [\<lparr>te_state = STATE_PLANNING,
                            te_timestamp = now (length response_goals),
                            te_action = ''Response plan created'',
                            te_counters = [(''goals_count'', TInt (int (length response_goals)))]\<rparr>]\<rparr>,
                   STATE_RESPONDING)))"

subsection \<open>IDLE\<close>

text \<open>
  \<open>IdleState.run\<close>. \<open>received\<close> is what \<open>self.receive(timeout=5)\<close> returned: a message, or
  \<open>None\<close> after the timeout. Only \<open>json.JSONDecodeError\<close> is caught. \<open>json.loads(None)\<close>
  raises \<open>TypeError\<close>; a decoded value that is not a dictionary has no \<open>get\<close>, so the
  first \<open>event_data.get\<close> raises \<open>AttributeError\<close> (after \<open>current_event\<close> was assigned;
  the exception leaves \<open>run\<close> with no next state set, and the agent is not returned).
\<close>

definition IdleState_run ::
  "decoder \<Rightarrow> clock \<Rightarrow> message option \<Rightarrow> ResponseAgent \<Rightarrow> py_error + (ResponseAgent \<times> fsm_state)" where
  "IdleState_run loads now received ag =
     (case received of
        None \<Rightarrow> Inr (ag, STATE_IDLE)
      | Some msg \<Rightarrow>
          (case body msg of
             None \<Rightarrow> Inl TypeError
           | Some b \<Rightarrow>
               (case loads b of
                  None \<Rightarrow> Inr (ag, STATE_IDLE)
                | Some (JObject event_data) \<Rightarrow>
                    Inr (ag\<lparr>current_event := Some event_data,
                             fsm_trace := fsm_trace ag @
                               [\<lparr>te_state = STATE_IDLE,
                                 te_timestamp = now 0,
                                 te_action = ''Received disaster alert'',
                                 te_counters =
                                   [(''event_id'',
                                     TStr (case ed_event_id event_data of
                                             None \<Rightarrow> ''UNKNOWN'' | Some e \<Rightarrow> e))]\<rparr>]\<rparr>,
                         STATE_ANALYZING)
                | Some _ \<Rightarrow> Inl AttributeError)))"

subsection \<open>ANALYZING\<close>

text \<open>
  \<open>AnalyzingState.run\<close>. The goal is appended with status "active" and then, being the same
  object, set to "completed" in place; the model appends it in its final state.
\<close>

definition AnalyzingState_run :: "clock \<Rightarrow> ResponseAgent \<Rightarrow> py_error + (ResponseAgent \<times> fsm_state)" where
  "AnalyzingState_run now ag =
     (case current_event ag of
        None \<Rightarrow> Inl AttributeError
      | Some event \<Rightarrow>
          (let severity = (case ed_severity event of None \<Rightarrow> 1 | Some s \<Rightarrow> s);
               goal = \<lparr>goal_id = ''GOAL-'' @ fmt_d 3 (length (goals ag) + 1),
                       goal_type = ASSESS_SITUATION,
                       priority = 5,
                       status = ''active'',
                       created_at = now 0,
                       completed_at = None\<rparr>;
               goal = goal\<lparr>status := ''completed'', completed_at := Some (now 1)\<rparr>
           in Inr (ag\<lparr>goals := goals ag @ [goal],
                        fsm_trace := fsm_trace ag @
                          [\<lparr>te_state = STATE_ANALYZING,
                            te_timestamp = now 2,
                            te_action = ''Completed situation assessment'',
                            te_counters = [(''severity'', TInt severity)]\<rparr>]\<rparr>,
                   STATE_PLANNING)))"

subsection \<open>RESPONDING\<close>

text \<open>
  \<open>pending_goals\<close> holds references to the \<open>Goal\<close> objects of \<open>self.agent.goals\<close>; a
  reference is modelled by the position of the goal in that list, so that setting the status
  through the reference updates the agent's list.

  \<open>list.sort(key=..., reverse=True)\<close> is a stable sort in descending key order: elements with
  equal keys keep their order. It is modelled by the stable insertion sort of the library on
  the negated key.
\<close>

definition pending_goals :: "Goal list \<Rightarrow> nat list" where
  "pending_goals gs = filter (\<lambda>i. status (gs ! i) = ''pending'') [0..<length gs]"

definition py_sort_reverse :: "('a \<Rightarrow> int) \<Rightarrow> 'a list \<Rightarrow> 'a list" where
  "py_sort_reverse key xs = sort_key (\<lambda>x. - key x) xs"

definition execution_order :: "Goal list \<Rightarrow> nat list" where
  "execution_order gs = py_sort_reverse (\<lambda>i. priority (gs ! i)) (pending_goals gs)"

fun execute_goals :: "clock \<Rightarrow> nat \<Rightarrow> nat list \<Rightarrow> Goal list \<Rightarrow> Goal list" where
  "execute_goals now k [] gs = gs"
| "execute_goals now k (i # rest) gs =
     execute_goals now (k + 1) rest
       (gs[i := (gs ! i)\<lparr>status := ''completed'', completed_at := Some (now k)\<rparr>])"

definition RespondingState_run :: "clock \<Rightarrow> ResponseAgent \<Rightarrow> py_error + (ResponseAgent \<times> fsm_state)" where
  "RespondingState_run now ag =
     (let order = execution_order (goals ag)
      in Inr (ag\<lparr>goals := execute_goals now 0 order (goals ag),
                   fsm_trace := fsm_trace ag @
                     [\<lparr>te_state = STATE_RESPONDING,
                       te_timestamp = now (length order),
                       te_action = ''Response actions executed'',
                       te_counters = [(''goals_completed'', TInt (int (length order)))]\<rparr>]\<rparr>,
              STATE_MONITORING))"

subsection \<open>MONITORING\<close>

text \<open>
  \<open>MonitoringState.run\<close>. The success rate \<open>(completed_goals/total_goals)*100\<close> is computed
  for a log line; the division raises \<open>ZeroDivisionError\<close> when there is no goal.
\<close>

definition success_rate :: "nat \<Rightarrow> nat \<Rightarrow> py_error + real" where
  "success_rate completed_goals total_goals =
     (if total_goals = 0 then Inl ZeroDivisionError
      else Inr (real completed_goals / real total_goals * 100))"

definition MonitoringState_run :: "clock \<Rightarrow> ResponseAgent \<Rightarrow> py_error + (ResponseAgent \<times> fsm_state)" where
  "MonitoringState_run now ag =
     (let total_goals = length (goals ag);
          completed_goals = length (filter (\<lambda>g. status g = ''completed'') (goals ag))
      in case success_rate completed_goals total_goals of
           Inl e \<Rightarrow> Inl e
         | Inr rate \<Rightarrow>
             Inr (ag\<lparr>fsm_trace := fsm_trace ag @
                       [\<lparr>te_state = STATE_MONITORING,
                         te_timestamp = now 0,
                         te_action = ''Recovery monitoring completed'',
                         te_counters = [(''goals_completed'', TInt (int completed_goals)),
                                        (''total_goals'', TInt (int total_goals))]\<rparr>]\<rparr>,
                  STATE_COMPLETED))"

subsection \<open>COMPLETED\<close>

text \<open>\<open>CompletedState.run\<close>; \<open>_generate_report\<close> only writes log lines.\<close>

definition CompletedState_run :: "clock \<Rightarrow> ResponseAgent \<Rightarrow> py_error + (ResponseAgent \<times> fsm_state)" where
  "CompletedState_run now ag =
     (case current_event ag of
        None \<Rightarrow> Inl AttributeError
      | Some event \<Rightarrow>
          Inr (ag\<lparr>fsm_trace := fsm_trace ag @
                    [\<lparr>te_state = STATE_COMPLETED,
                      te_timestamp = now 0,
                      te_action = ''Response cycle completed'',
                      te_counters =
                        [(''event_id'',
                          (case ed_event_id event of None \<Rightarrow> TNone | Some e \<Rightarrow> TStr e))]\<rparr>],
                   current_event := None\<rparr>,
               STATE_IDLE))"

subsection \<open>The machine\<close>

text \<open>
  One visit of a state: the state's \<open>run\<close> on the inputs of that visit (the message that
  \<open>receive\<close> returns, read by IDLE only, and the clock). A configuration is the agent and
  the state to run next; the machine starts in IDLE (\<open>initial=True\<close>). An exception that
  leaves \<open>run\<close> ends the run of the machine with that exception.
\<close>

record fsm_input =
  received :: "message option"
  stamps :: clock

fun state_run ::
  "decoder \<Rightarrow> fsm_state \<Rightarrow> fsm_input \<Rightarrow> ResponseAgent \<Rightarrow> py_error + (ResponseAgent \<times> fsm_state)" where
  "state_run loads STATE_IDLE inp ag = IdleState_run loads (stamps inp) (received inp) ag"
| "state_run loads STATE_ANALYZING inp ag = AnalyzingState_run (stamps inp) ag"
| "state_run loads STATE_PLANNING inp ag = PlanningState_run (stamps inp) ag"
| "state_run loads STATE_RESPONDING inp ag = RespondingState_run (stamps inp) ag"
| "state_run loads STATE_MONITORING inp ag = MonitoringState_run (stamps inp) ag"
| "state_run loads STATE_COMPLETED inp ag = CompletedState_run (stamps inp) ag"

definition fsm_step ::
  "decoder \<Rightarrow> fsm_input \<Rightarrow> ResponseAgent \<times> fsm_state \<Rightarrow> py_error + (ResponseAgent \<times> fsm_state)" where
  "fsm_step loads inp cfg = state_run loads (snd cfg) inp (fst cfg)"

fun fsm_run ::
  "decoder \<Rightarrow> fsm_input list \<Rightarrow> ResponseAgent \<times> fsm_state \<Rightarrow> py_error + (ResponseAgent \<times> fsm_state)" where
  "fsm_run loads [] cfg = Inr cfg"
| "fsm_run loads (inp # inps) cfg =
     (case fsm_step loads inp cfg of
        Inl e \<Rightarrow> Inl e
      | Inr cfg' \<Rightarrow> fsm_run loads inps cfg')"

definition fsm_initial :: "ResponseAgent \<times> fsm_state" where
  "fsm_initial = (ResponseAgent_setup, STATE_IDLE)"

section \<open>Lab 2: the environment model\<close>

text \<open>
  Python floats are modelled by real numbers: the comparisons, \<open>min\<close> and \<open>max\<close> of the
  code are exact on floats, and the random draws are inputs of the model.
\<close>

datatype DisasterType = EARTHQUAKE | FLOOD | FIRE | HURRICANE | TORNADO | TSUNAMI

datatype SeverityLevel = MINIMAL | LOW | MODERATE | HIGH | CRITICAL

fun severity_value :: "SeverityLevel \<Rightarrow> int" where
  "severity_value MINIMAL = 1"
| "severity_value LOW = 2"
| "severity_value MODERATE = 3"
| "severity_value HIGH = 4"
| "severity_value CRITICAL = 5"

fun severity_name :: "SeverityLevel \<Rightarrow> string" where
  "severity_name MINIMAL = ''MINIMAL''"
| "severity_name LOW = ''LOW''"
| "severity_name MODERATE = ''MODERATE''"
| "severity_name HIGH = ''HIGH''"
| "severity_name CRITICAL = ''CRITICAL''"

record EnvironmentalCondition =
  timestamp :: string
  temperature :: real
  humidity :: real
  wind_speed :: real
  air_quality :: int
  water_level :: real
  seismic_activity :: real

record DisasterEvent =
  event_id :: string
  disaster_type :: DisasterType
  severity :: SeverityLevel
  event_location :: string
  event_timestamp :: string
  affected_area_km2 :: real
  casualties_estimated :: int
  damage_cost_usd :: real
  description :: string

record DisasterEnvironment =
  location :: string
  current_conditions :: EnvironmentalCondition
  active_disasters :: "DisasterEvent list"
  event_history :: "DisasterEvent list"
  event_counter :: nat
  conditions_history :: "EnvironmentalCondition list"

text \<open>\<open>DisasterEnvironment.__init__\<close> with \<open>_initialize_conditions\<close>.\<close>

definition initialize_conditions :: "string \<Rightarrow> EnvironmentalCondition" where
  "initialize_conditions t =
     \<lparr>timestamp = t, temperature = 22, humidity = 60, wind_speed = 15, air_quality = 50,
      water_level = 2, seismic_activity = 0\<rparr>"

definition DisasterEnvironment_init :: "string \<Rightarrow> string \<Rightarrow> DisasterEnvironment" where
  "DisasterEnvironment_init loc t =
     \<lparr>location = loc,
      current_conditions = initialize_conditions t,
      active_disasters = [],
      event_history = [],
      event_counter = 0,
      conditions_history = []\<rparr>"

text \<open>
  The values that one call of \<open>update_conditions\<close> draws from \<open>random\<close>, in the order of the
  calls, and the time of the call.
\<close>

record condition_draws =
  temperature_draw :: real
  humidity_draw :: real
  wind_speed_draw :: real
  air_quality_draw :: int
  water_level_draw :: real
  seismic_draw :: real
  update_time :: string

definition update_conditions :: "condition_draws \<Rightarrow> DisasterEnvironment \<Rightarrow> DisasterEnvironment" where
  "update_conditions d env =
     (let c = current_conditions env;
          c = c\<lparr>temperature := temperature c + temperature_draw d\<rparr>;
          c = c\<lparr>humidity := humidity c + humidity_draw d\<rparr>;
          c = c\<lparr>wind_speed := wind_speed c + wind_speed_draw d\<rparr>;
          c = c\<lparr>air_quality := air_quality c + air_quality_draw d\<rparr>;
          c = c\<lparr>water_level := water_level c + water_level_draw d\<rparr>;
          c = c\<lparr>seismic_activity := seismic_draw d\<rparr>;
          c = c\<lparr>temperature := max (- 10) (min 45 (temperature c))\<rparr>;
          c = c\<lparr>humidity := max 0 (min 100 (humidity c))\<rparr>;
          c = c\<lparr>wind_speed := max 0 (min 150 (wind_speed c))\<rparr>;
          c = c\<lparr>air_quality := max 0 (min 500 (air_quality c))\<rparr>;
          c = c\<lparr>water_level := max 0 (min 20 (water_level c))\<rparr>;
          c = c\<lparr>timestamp := update_time d\<rparr>
      in env\<lparr>current_conditions := c, conditions_history := conditions_history env @ [c]\<rparr>)"

fun determine_earthquake_severity :: "real \<Rightarrow> SeverityLevel" where
  "determine_earthquake_severity magnitude =
     (if magnitude < 4.5 then MINIMAL
      else if magnitude < 5.5 then LOW
      else if magnitude < 6.5 then MODERATE
      else if magnitude < 7.5 then HIGH
      else CRITICAL)"

fun determine_flood_severity :: "real \<Rightarrow> SeverityLevel" where
  "determine_flood_severity level =
     (if level < 12 then MODERATE
      else if level < 15 then HIGH
      else CRITICAL)"

fun determine_fire_severity :: "real \<Rightarrow> SeverityLevel" where
  "determine_fire_severity temp =
     (if temp < 38 then LOW
      else if temp < 42 then MODERATE
      else HIGH)"

fun determine_hurricane_severity :: "real \<Rightarrow> SeverityLevel" where
  "determine_hurricane_severity speed =
     (if speed < 130 then MODERATE
      else if speed < 140 then HIGH
      else CRITICAL)"

fun generate_description :: "DisasterType \<Rightarrow> SeverityLevel \<Rightarrow> string" where
  "generate_description EARTHQUAKE s = severity_name s @ '' earthquake detected with significant ground shaking''"
| "generate_description FLOOD s = severity_name s @ '' flooding detected with rising water levels''"
| "generate_description FIRE s = severity_name s @ '' wildfire detected with rapid spread''"
| "generate_description HURRICANE s = severity_name s @ '' hurricane detected with extreme winds''"
| "generate_description TORNADO s = severity_name s @ '' tornado detected with severe damage potential''"
| "generate_description TSUNAMI s = severity_name s @ '' tsunami warning with potential coastal impact''"

text \<open>
  \<open>round(x, 2)\<close>, on reals: the nearest multiple of 0.01, a tie going to the even one.
\<close>

definition py_round2 :: "real \<Rightarrow> real" where
  "py_round2 x =
     (let y = x * 100; f = \<lfloor>y\<rfloor>; r = y - of_int f
      in of_int (if r < 1 / 2 then f else if 1 / 2 < r then f + 1 else if even f then f else f + 1) / 100)"

text \<open>The draws of one call of \<open>_create_disaster_event\<close>, and the time of the call.\<close>

record creation_draws =
  area_draw :: real
  casualties_draw :: int
  damage_draw :: real
  creation_time :: string

definition create_disaster_event ::
  "creation_draws \<Rightarrow> DisasterType \<Rightarrow> SeverityLevel \<Rightarrow> DisasterEnvironment \<Rightarrow> DisasterEvent \<times> DisasterEnvironment" where
  "create_disaster_event d dtype sev env =
     (let env = env\<lparr>event_counter := event_counter env + 1\<rparr>;
          affected_area = of_int (severity_value sev) * area_draw d;
          casualties = severity_value sev * casualties_draw d;
          damage_cost = of_int (severity_value sev) * damage_draw d
      in (\<lparr>event_id = ''EVENT-'' @ fmt_d 4 (event_counter env),
           disaster_type = dtype,
           severity = sev,
           event_location = location env,
           event_timestamp = creation_time d,
           affected_area_km2 = py_round2 affected_area,
           casualties_estimated = casualties,
           damage_cost_usd = py_round2 damage_cost,
           description = generate_description dtype sev\<rparr>,
          env))"

text \<open>
  The draws of one call of \<open>check_for_disasters\<close>: those of each of the five events it can
  create, the value of \<open>random.random()\<close> and the two \<open>random.choice\<close> results.
\<close>

record check_draws =
  earthquake_draws :: creation_draws
  flood_draws :: creation_draws
  fire_draws :: creation_draws
  hurricane_draws :: creation_draws
  random_roll :: real
  random_type :: DisasterType
  random_severity :: SeverityLevel
  random_draws :: creation_draws

text \<open>
  The five rules of \<open>check_for_disasters\<close> have one shape: when the condition of the rule holds,
  one event is created and appended to \<open>new_disasters\<close>. \<open>detect\<close> is that shape, on the pair
  of \<open>new_disasters\<close> and the environment.
\<close>

definition detect ::
  "bool \<Rightarrow> creation_draws \<Rightarrow> DisasterType \<Rightarrow> SeverityLevel \<Rightarrow> DisasterEvent list \<times> DisasterEnvironment
     \<Rightarrow> DisasterEvent list \<times> DisasterEnvironment" where
  "detect condition d dtype sev st =
     (if condition then
        (let (event, env) = create_disaster_event d dtype sev (snd st)
         in (fst st @ [event], env))
      else st)"

definition check_for_disasters ::
  "check_draws \<Rightarrow> DisasterEnvironment \<Rightarrow> DisasterEvent list \<times> DisasterEnvironment" where
  "check_for_disasters d env =
     (let c = current_conditions env;
          st = ([], env);
          st = detect (seismic_activity c > 4.0) (earthquake_draws d) EARTHQUAKE
                 (determine_earthquake_severity (seismic_activity c)) st;
          st = detect (water_level c > 10.0) (flood_draws d) FLOOD
                 (determine_flood_severity (water_level c)) st;
          st = detect (temperature c > 35 \<and> humidity c < 20) (fire_draws d) FIRE
                 (determine_fire_severity (temperature c)) st;
          st = detect (wind_speed c > 120) (hurricane_draws d) HURRICANE
                 (determine_hurricane_severity (wind_speed c)) st;
          st = detect (random_roll d < 0.10) (random_draws d)
                 (random_type d) (random_severity d) st;
          (new_disasters, env) = st
      in (new_disasters,
          env\<lparr>active_disasters := active_disasters env @ new_disasters,
              event_history := event_history env @ new_disasters\<rparr>))"

text \<open>
  The life of an environment: the two operations the monitoring behaviour calls on it, in
  any order and number.
\<close>

datatype env_op = Update condition_draws | Check check_draws

fun env_apply :: "env_op \<Rightarrow> DisasterEnvironment \<Rightarrow> DisasterEnvironment" where
  "env_apply (Update d) env = update_conditions d env"
| "env_apply (Check d) env = snd (check_for_disasters d env)"

definition env_run :: "env_op list \<Rightarrow> DisasterEnvironment \<Rightarrow> DisasterEnvironment" where
  "env_run ops env = fold env_apply ops env"

text \<open>The clamp ranges of the five clamped readings.\<close>

definition within_clamp_ranges :: "EnvironmentalCondition \<Rightarrow> bool" where
  "within_clamp_ranges c \<longleftrightarrow>
     - 10 \<le> temperature c \<and> temperature c \<le> 45
     \<and> 0 \<le> humidity c \<and> humidity c \<le> 100
     \<and> 0 \<le> wind_speed c \<and> wind_speed c \<le> 150
     \<and> 0 \<le> air_quality c \<and> air_quality c \<le> 500
     \<and> 0 \<le> water_level c \<and> water_level c \<le> 20"

section \<open>Lab 4: the coordination protocol\<close>

datatype FIPAPerformative =
    INFORM | REQUEST | AGREE | REFUSE | CONFIRM | QUERY_IF | PROPOSE | ACCEPT_PROPOSAL | REJECT_PROPOSAL

fun performative_value :: "FIPAPerformative \<Rightarrow> string" where
  "performative_value INFORM = ''inform''"
| "performative_value REQUEST = ''request''"
| "performative_value AGREE = ''agree''"
| "performative_value REFUSE = ''refuse''"
| "performative_value CONFIRM = ''confirm''"
| "performative_value QUERY_IF = ''query-if''"
| "performative_value PROPOSE = ''propose''"
| "performative_value ACCEPT_PROPOSAL = ''accept-proposal''"
| "performative_value REJECT_PROPOSAL = ''reject-proposal''"

datatype MessageType =
    DISASTER_ALERT | RESOURCE_REQUEST | RESOURCE_RESPONSE | STATUS_UPDATE | COORDINATION_REQUEST
  | TASK_ASSIGNMENT

fun message_type_value :: "MessageType \<Rightarrow> string" where
  "message_type_value DISASTER_ALERT = ''disaster_alert''"
| "message_type_value RESOURCE_REQUEST = ''resource_request''"
| "message_type_value RESOURCE_RESPONSE = ''resource_response''"
| "message_type_value STATUS_UPDATE = ''status_update''"
| "message_type_value COORDINATION_REQUEST = ''coordination_request''"
| "message_type_value TASK_ASSIGNMENT = ''task_assignment''"

text \<open>A dictionary of resource amounts, and \<open>d.get(k, dflt)\<close>.\<close>

type_synonym resources = "string \<rightharpoonup> int"

definition dict_get :: "('k \<rightharpoonup> 'v) \<Rightarrow> 'k \<Rightarrow> 'v \<Rightarrow> 'v" where
  "dict_get d k dflt = (case d k of None \<Rightarrow> dflt | Some v \<Rightarrow> v)"

text \<open>
  The body of a message is a JSON object; \<open>json.dumps\<close> on the sending side followed by
  \<open>json.loads\<close> on the receiving side is taken to give the dictionary back. A body is
  modelled by the keys that the three payloads of the protocol use, each present or absent.
\<close>

record acl_body =
  b_event_id :: "string option"
  b_disaster_type :: "string option"
  b_severity :: "int option"
  b_severity_name :: "string option"
  b_location :: "string option"
  b_timestamp :: "string option"
  b_resources_requested :: "resources option"
  b_agent_id :: "string option"
  b_status :: "string option"
  b_resources_available :: "resources option"

definition empty_body :: acl_body where
  "empty_body =
     \<lparr>b_event_id = None, b_disaster_type = None, b_severity = None, b_severity_name = None,
      b_location = None, b_timestamp = None, b_resources_requested = None, b_agent_id = None,
      b_status = None, b_resources_available = None\<rparr>"

text \<open>
  A message with its three metadata entries (\<open>get_metadata\<close> gives \<open>None\<close> for a missing
  one). The sender is filled in when the message is sent.
\<close>

record acl_message =
  msg_to :: string
  msg_sender :: string
  msg_performative :: "string option"
  msg_message_type :: "string option"
  msg_conversation_id :: "string option"
  msg_body :: "acl_body option"

record ACLMessageLog =
  log_timestamp :: string
  log_sender :: string
  log_receiver :: string
  log_performative :: "string option"
  log_message_type :: "string option"
  log_content :: acl_body
  log_conversation_id :: "string option"

subsection \<open>The command center\<close>

record CommandCenterAgent =
  cc_jid :: string
  cc_message_log :: "ACLMessageLog list"
  rescue_agents :: "string list"

definition CommandCenterAgent_setup :: "string \<Rightarrow> CommandCenterAgent" where
  "CommandCenterAgent_setup jid =
     \<lparr>cc_jid = jid, cc_message_log = [], rescue_agents = [''rescue1@localhost'', ''rescue2@localhost'']\<rparr>"

text \<open>
  The loop of \<open>_request_rescue_resources\<close> over \<open>self.agent.rescue_agents\<close>: one message built,
  sent and logged per responder. The messages sent are returned in the order of sending.
  SPADE's \<open>set_metadata\<close> takes strings only and raises \<open>TypeError\<close> otherwise, so an alert
  without \<open>event_id\<close> fails at the first message.
\<close>

fun send_requests ::
  "clock \<Rightarrow> nat \<Rightarrow> acl_body \<Rightarrow> int \<Rightarrow> resources \<Rightarrow> string list \<Rightarrow> CommandCenterAgent
     \<Rightarrow> py_error + (CommandCenterAgent \<times> acl_message list)" where
  "send_requests now k disaster_data sev resources_needed [] cc = Inr (cc, [])"
| "send_requests now k disaster_data sev resources_needed (rescue_agent # rest) cc =
     (case b_event_id disaster_data of
        None \<Rightarrow> Inl TypeError
      | Some conversation_id \<Rightarrow>
          (let content = empty_body
                           \<lparr>b_event_id := b_event_id disaster_data,
                            b_disaster_type := b_disaster_type disaster_data,
                            b_severity := Some sev,
                            b_resources_requested := Some resources_needed\<rparr>;
               msg = \<lparr>msg_to = rescue_agent,
                      msg_sender = cc_jid cc,
                      msg_performative = Some (performative_value REQUEST),
                      msg_message_type = Some (message_type_value RESOURCE_REQUEST),
                      msg_conversation_id = Some conversation_id,
                      msg_body = Some content\<rparr>;
               log_entry = \<lparr>log_timestamp = now k,
                            log_sender = cc_jid cc,
                            log_receiver = rescue_agent,
                            log_performative = Some (performative_value REQUEST),
                            log_message_type = Some (message_type_value RESOURCE_REQUEST),
                            log_content = content,
                            log_conversation_id = b_event_id disaster_data\<rparr>;
               cc = cc\<lparr>cc_message_log := cc_message_log cc @ [log_entry]\<rparr>
           in case send_requests now (k + 1) disaster_data sev resources_needed rest cc of
                Inl e \<Rightarrow> Inl e
              | Inr (cc, sent) \<Rightarrow> Inr (cc, msg # sent)))"

definition request_rescue_resources ::
  "clock \<Rightarrow> acl_body \<Rightarrow> CommandCenterAgent \<Rightarrow> py_error + (CommandCenterAgent \<times> acl_message list)" where
  "request_rescue_resources now disaster_data cc =
     (let sev = (case b_severity disaster_data of None \<Rightarrow> 1 | Some s \<Rightarrow> s);
          resources_needed = [''rescue_teams'' \<mapsto> sev * 2,
                              ''medical_units'' \<mapsto> sev * 1,
                              ''equipment'' \<mapsto> sev * 3]
      in send_requests now 0 disaster_data sev resources_needed (rescue_agents cc) cc)"

text \<open>\<open>_handle_disaster_alert\<close>: \<open>json.loads(None)\<close> raises \<open>TypeError\<close>.\<close>

definition handle_disaster_alert ::
  "clock \<Rightarrow> acl_message \<Rightarrow> CommandCenterAgent \<Rightarrow> py_error + (CommandCenterAgent \<times> acl_message list)" where
  "handle_disaster_alert now msg cc =
     (case msg_body msg of
        None \<Rightarrow> Inl TypeError
      | Some disaster_data \<Rightarrow> request_rescue_resources now disaster_data cc)"

text \<open>
  \<open>ReceiveAlertBehaviour.run\<close> on what \<open>self.receive(timeout=1)\<close> returned. The first
  timestamp goes to the log entry of the received message.
\<close>

definition ReceiveAlertBehaviour_run ::
  "clock \<Rightarrow> acl_message option \<Rightarrow> CommandCenterAgent \<Rightarrow> py_error + (CommandCenterAgent \<times> acl_message list)" where
  "ReceiveAlertBehaviour_run now incoming cc =
     (case incoming of
        None \<Rightarrow> Inr (cc, [])
      | Some msg \<Rightarrow>
          (let log_entry = \<lparr>log_timestamp = now 0,
                            log_sender = msg_sender msg,
                            log_receiver = cc_jid cc,
                            log_performative = msg_performative msg,
                            log_message_type = msg_message_type msg,
                            log_content = (case msg_body msg of None \<Rightarrow> empty_body | Some b \<Rightarrow> b),
                            log_conversation_id = msg_conversation_id msg\<rparr>;
               cc = cc\<lparr>cc_message_log := cc_message_log cc @ [log_entry]\<rparr>
           in if msg_performative msg = Some (performative_value INFORM)
                 \<and> msg_message_type msg = Some (message_type_value DISASTER_ALERT)
              then handle_disaster_alert (\<lambda>k. now (k + 1)) msg cc
              else Inr (cc, [])))"

subsection \<open>The rescue agent\<close>

record RescueAgent =
  ra_name :: string
  ra_jid :: string
  available_resources :: resources
  ra_message_log :: "ACLMessageLog list"

text \<open>\<open>RescueAgent.setup\<close>; the three amounts are the \<open>random.randint\<close> draws.\<close>

definition RescueAgent_setup :: "string \<Rightarrow> string \<Rightarrow> int \<Rightarrow> int \<Rightarrow> int \<Rightarrow> RescueAgent" where
  "RescueAgent_setup name jid teams units equip =
     \<lparr>ra_name = name,
      ra_jid = jid,
      available_resources = [''rescue_teams'' \<mapsto> teams, ''medical_units'' \<mapsto> units, ''equipment'' \<mapsto> equip],
      ra_message_log = []\<rparr>"

text \<open>
  \<open>_handle_resource_request\<close>. Subscripting \<open>available_resources\<close> with a missing key raises
  \<open>KeyError\<close>. The loop \<open>for key in available\<close> runs over the three keys of the dictionary
  just built and subtracts the granted amount from the held one. Setting the conversation id
  of the response raises \<open>TypeError\<close> when the request has no \<open>event_id\<close> (the pool has been
  decremented by then). The reply is returned.
\<close>

definition handle_resource_request ::
  "clock \<Rightarrow> acl_message \<Rightarrow> RescueAgent \<Rightarrow> py_error + (RescueAgent \<times> acl_message)" where
  "handle_resource_request now msg ag =
     (case msg_body msg of
        None \<Rightarrow> Inl TypeError
      | Some request_data \<Rightarrow>
          (let requested = (case b_resources_requested request_data of None \<Rightarrow> Map.empty | Some r \<Rightarrow> r);
               held = available_resources ag
           in case (held ''rescue_teams'', held ''medical_units'', held ''equipment'') of
                (Some teams, Some units, Some equip) \<Rightarrow>
                  (let granted_teams = min (dict_get requested ''rescue_teams'' 0) teams;
                       granted_units = min (dict_get requested ''medical_units'' 0) units;
                       granted_equip = min (dict_get requested ''equipment'' 0) equip;
                       available = [''rescue_teams'' \<mapsto> granted_teams,
                                    ''medical_units'' \<mapsto> granted_units,
                                    ''equipment'' \<mapsto> granted_equip];
                       ag = ag\<lparr>available_resources :=
                                 held(''rescue_teams'' \<mapsto> teams - granted_teams,
                                      ''medical_units'' \<mapsto> units - granted_units,
                                      ''equipment'' \<mapsto> equip - granted_equip)\<rparr>
                   in case b_event_id request_data of
                        None \<Rightarrow> Inl TypeError
                      | Some conversation_id \<Rightarrow>
                          (let content = empty_body
                                           \<lparr>b_event_id := b_event_id request_data,
                                            b_agent_id := Some (ra_name ag),
                                            b_status := Some ''resources_allocated'',
                                            b_resources_available := Some available\<rparr>;
                               response = \<lparr>msg_to = msg_sender msg,
                                           msg_sender = ra_jid ag,
                                           msg_performative = Some (performative_value INFORM),
                                           msg_message_type = Some (message_type_value RESOURCE_RESPONSE),
                                           msg_conversation_id = Some conversation_id,
                                           msg_body = Some content\<rparr>;
                               log_entry = \<lparr>log_timestamp = now 0,
                                            log_sender = ra_jid ag,
                                            log_receiver = msg_sender msg,
                                            log_performative = Some (performative_value INFORM),
                                            log_message_type = Some (message_type_value RESOURCE_RESPONSE),
                                            log_content = content,
                                            log_conversation_id = b_event_id request_data\<rparr>
                           in Inr (ag\<lparr>ra_message_log := ra_message_log ag @ [log_entry]\<rparr>, response)))
              | _ \<Rightarrow> Inl KeyError))"

subsection \<open>The sensor\<close>

text \<open>
  \<open>SensorAgent.DetectDisasterBehaviour._generate_disaster\<close>. \<open>random.choice(xs)\<close> returns
  \<open>xs[i]\<close> for a drawn position \<open>i\<close> of \<open>xs\<close>; \<open>random.randint(1000, 9999)\<close> is the drawn
  integer. The function reads and writes no attribute of the agent.
\<close>

definition str_int :: "int \<Rightarrow> string" where
  "str_int i = (if i < 0 then ''-'' @ str_nat (nat (- i)) else str_nat (nat i))"

record disaster_draws =
  type_choice :: nat
  level_choice :: nat
  id_draw :: int
  disaster_time :: string

definition disaster_types :: "string list" where
  "disaster_types = [''Earthquake'', ''Flood'', ''Fire'', ''Hurricane'']"

definition severity_levels :: "(int \<times> string) list" where
  "severity_levels = [(1, ''MINIMAL''), (2, ''LOW''), (3, ''MODERATE''), (4, ''HIGH''), (5, ''CRITICAL'')]"

definition generate_disaster :: "disaster_draws \<Rightarrow> acl_body" where
  "generate_disaster d =
     (let dtype = disaster_types ! type_choice d;
          (sev, sev_name) = severity_levels ! level_choice d
      in empty_body
           \<lparr>b_event_id := Some (''EVENT-'' @ str_int (id_draw d)),
            b_disaster_type := Some dtype,
            b_severity := Some sev,
            b_severity_name := Some sev_name,
            b_location := Some ''Disaster Zone Alpha'',
            b_timestamp := Some (disaster_time d)\<rparr>)"

text \<open>\<open>DetectDisasterBehaviour.run\<close>: the alert sent to the command center.\<close>

definition DetectDisasterBehaviour_run :: "disaster_draws \<Rightarrow> string \<Rightarrow> acl_message" where
  "DetectDisasterBehaviour_run d jid =
     (let disaster = generate_disaster d
      in \<lparr>msg_to = ''command@localhost'',
          msg_sender = jid,
          msg_performative = Some (performative_value INFORM),
          msg_message_type = Some (message_type_value DISASTER_ALERT),
          msg_conversation_id = b_event_id disaster,
          msg_body = Some disaster\<rparr>)"

text \<open>A goal as the properties below observe it: its type, its priority and its status.\<close>

definition goal_view :: "Goal \<Rightarrow> RescueGoal \<times> int \<times> string" where
  "goal_view g = (goal_type g, priority g, status g)"

section \<open>Notions used by the properties\<close>

text \<open>The amount of one resource that a request asks for, as the responder reads it.\<close>

definition requested_amount :: "acl_body \<Rightarrow> string \<Rightarrow> int" where
  "requested_amount request_data key =
     dict_get (case b_resources_requested request_data of None \<Rightarrow> Map.empty | Some r \<Rightarrow> r) key 0"

text \<open>The identifiers EVENT-0001, ..., EVENT-n, and the environments whose history carries them.\<close>

definition event_ids_upto :: "nat \<Rightarrow> string list" where
  "event_ids_upto n = map (\<lambda>k. ''EVENT-'' @ fmt_d 4 k) [1..<Suc n]"

definition ids_in_order :: "DisasterEnvironment \<Rightarrow> bool" where
  "ids_in_order env \<longleftrightarrow> map event_id (event_history env) = event_ids_upto (event_counter env)"

text \<open>
  What holds of every configuration the machine reaches: outside IDLE there is a current
  event, and from PLANNING on the agent has a goal.
\<close>

fun fsm_invariant :: "ResponseAgent \<times> fsm_state \<Rightarrow> bool" where
  "fsm_invariant (ag, STATE_IDLE) = True"
| "fsm_invariant (ag, STATE_ANALYZING) = (current_event ag \<noteq> None)"
| "fsm_invariant (ag, st) = (current_event ag \<noteq> None \<and> goals ag \<noteq> [])"

section \<open>Example inputs\<close>

text \<open>Concrete inputs on which the properties below are evaluated.\<close>

definition example_clock :: clock where
  "example_clock k = ''2026-01-29T10:00:0'' @ [digit_char k]"

definition example_event :: event_data where
  "example_event =
     \<lparr>ed_event_id = Some ''EVENT-0001'', ed_disaster_type = Some ''Flood'',
      ed_severity = Some 5, ed_severity_name = Some ''CRITICAL''\<rparr>"

definition example_goals :: "Goal list" where
  "example_goals =
     [\<lparr>goal_id = ''GOAL-001'', goal_type = MONITOR_RECOVERY, priority = 2, status = ''pending'',
       created_at = ''2026-01-29T09:00:00'', completed_at = None\<rparr>,
      \<lparr>goal_id = ''GOAL-002'', goal_type = ASSESS_SITUATION, priority = 5, status = ''completed'',
       created_at = ''2026-01-29T09:00:01'', completed_at = Some ''2026-01-29T09:00:02''\<rparr>,
      \<lparr>goal_id = ''GOAL-003'', goal_type = DEPLOY_RESOURCES, priority = 5, status = ''pending'',
       created_at = ''2026-01-29T09:00:03'', completed_at = None\<rparr>,
      \<lparr>goal_id = ''GOAL-004'', goal_type = PROVIDE_MEDICAL_AID, priority = 4, status = ''pending'',
       created_at = ''2026-01-29T09:00:04'', completed_at = None\<rparr>,
      \<lparr>goal_id = ''GOAL-005'', goal_type = EVACUATE_CIVILIANS, priority = 5, status = ''pending'',
       created_at = ''2026-01-29T09:00:05'', completed_at = None\<rparr>]"

definition example_agent :: ResponseAgent where
  "example_agent = \<lparr>current_event = None, goals = example_goals, fsm_trace = []\<rparr>"

text \<open>An environment close to three of its bounds, and draws that push it across them.\<close>

definition example_environment :: DisasterEnvironment where
  "example_environment =
     (DisasterEnvironment_init ''Disaster Zone Alpha'' ''2026-01-29T09:00:00'')
       \<lparr>current_conditions :=
          \<lparr>timestamp = ''2026-01-29T09:00:00'', temperature = 44.5, humidity = 60,
           wind_speed = 15, air_quality = 495, water_level = 0.25, seismic_activity = 0\<rparr>\<rparr>"

definition example_condition_draws :: condition_draws where
  "example_condition_draws =
     \<lparr>temperature_draw = 2, humidity_draw = - 5, wind_speed_draw = 3, air_quality_draw = 10,
      water_level_draw = - 0.5, seismic_draw = 1.25, update_time = ''2026-01-29T09:00:05''\<rparr>"

text \<open>
  Message bodies and a decoder for them: \<open>example_loads\<close> is \<open>json.loads\<close> on the three bodies
  of the examples (an alert, the number 5, and a text that is not JSON).
\<close>

definition example_body :: string where
  \<open>example_body =
     ''{"event_id": "EVENT-0001", "disaster_type": "Flood", "severity": 5, "severity_name": "CRITICAL"}''\<close>

definition example_loads :: decoder where
  "example_loads s =
     (if s = example_body then Some (JObject example_event)
      else if s = ''5'' then Some (JNumber 5)
      else None)"

definition example_alert :: fsm_input where
  "example_alert =
     \<lparr>received = Some \<lparr>sender = ''sensor@localhost'', body = Some example_body\<rparr>,
      stamps = example_clock\<rparr>"

definition example_timeout :: fsm_input where
  "example_timeout = \<lparr>received = None, stamps = example_clock\<rparr>"

definition example_number :: fsm_input where
  "example_number =
     \<lparr>received = Some \<lparr>sender = ''sensor@localhost'', body = Some ''5''\<rparr>,
      stamps = example_clock\<rparr>"

definition example_garbled :: fsm_input where
  "example_garbled =
     \<lparr>received = Some \<lparr>sender = ''sensor@localhost'', body = Some ''EVENT-0001 Flood''\<rparr>,
      stamps = example_clock\<rparr>"

text \<open>Draws for two checks of the environment that each create the random event.\<close>

definition example_creation_draws :: creation_draws where
  "example_creation_draws =
     \<lparr>area_draw = 12.5, casualties_draw = 40, damage_draw = 2500000,
      creation_time = ''2026-01-29T09:00:06''\<rparr>"

definition example_check_draws :: check_draws where
  "example_check_draws =
     \<lparr>earthquake_draws = example_creation_draws, flood_draws = example_creation_draws,
      fire_draws = example_creation_draws, hurricane_draws = example_creation_draws,
      random_roll = 0.05, random_type = TORNADO, random_severity = HIGH,
      random_draws = example_creation_draws\<rparr>"

definition example_operations :: "env_op list" where
  "example_operations =
     [Update example_condition_draws, Check example_check_draws,
      Update example_condition_draws, Check example_check_draws]"

text \<open>Two draws of the protocol's sensor with the same random number.\<close>

definition example_disaster_draws :: disaster_draws where
  "example_disaster_draws =
     \<lparr>type_choice = 1, level_choice = 2, id_draw = 4711, disaster_time = ''2026-01-29T10:00:02''\<rparr>"

definition other_disaster_draws :: disaster_draws where
  "other_disaster_draws =
     \<lparr>type_choice = 0, level_choice = 4, id_draw = 4711, disaster_time = ''2026-01-29T10:07:30''\<rparr>"

text \<open>The agents of the protocol, an alert of severity 3 and a request.\<close>

definition example_command_center :: CommandCenterAgent where
  "example_command_center = CommandCenterAgent_setup ''command@localhost''"

definition example_alert_message :: acl_message where
  "example_alert_message = DetectDisasterBehaviour_run example_disaster_draws ''sensor@localhost''"

definition example_rescue_agent :: RescueAgent where
  "example_rescue_agent = RescueAgent_setup ''rescue1'' ''rescue1@localhost'' 5 5 10"

definition example_request :: acl_message where
  "example_request =
     \<lparr>msg_to = ''rescue1@localhost'',
      msg_sender = ''command@localhost'',
      msg_performative = Some ''request'',
      msg_message_type = Some ''resource_request'',
      msg_conversation_id = Some ''EVENT-4711'',
      msg_body = Some (empty_body
        \<lparr>b_event_id := Some ''EVENT-4711'',
         b_disaster_type := Some ''Flood'',
         b_severity := Some 4,
         b_resources_requested :=
           Some [''rescue_teams'' \<mapsto> 8, ''medical_units'' \<mapsto> 3, ''equipment'' \<mapsto> 12]\<rparr>)\<rparr>"

section \<open>Properties\<close>

subsection \<open>PLANNING derives the goals from the severity\<close>

lemma create_goal_objects_view:
  "map goal_view (create_goal_objects now k c bs) = map (\<lambda>(gt, p). (gt, p, ''pending'')) bs"
  by (induction bs arbitrary: k c) (auto simp: goal_view_def)

text \<open>
  C1. The goals that PLANNING derives, seen as (type, priority, status), are a function of the
  severity alone: DEPLOY_RESOURCES (5) and EVACUATE_CIVILIANS (5) always, PROVIDE_MEDICAL_AID
  (4) exactly when the severity is at least 3, RESTORE_INFRASTRUCTURE (3) exactly when it is
  at least 4, MONITOR_RECOVERY (2) always, all with status pending; and for every current
  event PLANNING appends the goals of that event's severity (1 when the key is absent) to the
  agent's goals and goes to RESPONDING.
\<close>

theorem C1_planning_goals:
  "map goal_view (generate_response_goals now ag sev) =
     [(DEPLOY_RESOURCES, 5, ''pending''), (EVACUATE_CIVILIANS, 5, ''pending'')]
     @ (if sev \<ge> 3 then [(PROVIDE_MEDICAL_AID, 4, ''pending'')] else [])
     @ (if sev \<ge> 4 then [(RESTORE_INFRASTRUCTURE, 3, ''pending'')] else [])
     @ [(MONITOR_RECOVERY, 2, ''pending'')]
   \<and> (\<forall>event. current_event ag = Some event \<longrightarrow>
         (\<exists>ag'. PlanningState_run now ag = Inr (ag', STATE_RESPONDING)
            \<and> goals ag' = goals ag @ generate_response_goals now ag
                                       (case ed_severity event of None \<Rightarrow> 1 | Some s \<Rightarrow> s)))"
proof -
  have "map goal_view (generate_response_goals now ag sev) =
     [(DEPLOY_RESOURCES, 5, ''pending''), (EVACUATE_CIVILIANS, 5, ''pending'')]
     @ (if sev \<ge> 3 then [(PROVIDE_MEDICAL_AID, 4, ''pending'')] else [])
     @ (if sev \<ge> 4 then [(RESTORE_INFRASTRUCTURE, 3, ''pending'')] else [])
     @ [(MONITOR_RECOVERY, 2, ''pending'')]"
    unfolding generate_response_goals_def create_goal_objects_view
    by (simp add: basic_goals_def)
  moreover have "\<forall>event. current_event ag = Some event \<longrightarrow>
         (\<exists>ag'. PlanningState_run now ag = Inr (ag', STATE_RESPONDING)
            \<and> goals ag' = goals ag @ generate_response_goals now ag
                                       (case ed_severity event of None \<Rightarrow> 1 | Some s \<Rightarrow> s))"
    by (simp add: PlanningState_run_def Let_def)
  ultimately show ?thesis by blast
qed

text \<open>
  Severity 5 gives exactly the five goals, severity 1 exactly DEPLOY_RESOURCES (5),
  EVACUATE_CIVILIANS (5) and MONITOR_RECOVERY (2); PLANNING on an event of severity 5.
\<close>

theorem C1_planning_goals_witness:
  "map goal_view (generate_response_goals example_clock ResponseAgent_setup 5) =
     [(DEPLOY_RESOURCES, 5, ''pending''), (EVACUATE_CIVILIANS, 5, ''pending''),
      (PROVIDE_MEDICAL_AID, 4, ''pending''), (RESTORE_INFRASTRUCTURE, 3, ''pending''),
      (MONITOR_RECOVERY, 2, ''pending'')]
   \<and> map goal_view (generate_response_goals example_clock ResponseAgent_setup 1) =
     [(DEPLOY_RESOURCES, 5, ''pending''), (EVACUATE_CIVILIANS, 5, ''pending''),
      (MONITOR_RECOVERY, 2, ''pending'')]
   \<and> (\<exists>ag'. PlanningState_run example_clock (ResponseAgent_setup\<lparr>current_event := Some example_event\<rparr>)
               = Inr (ag', STATE_RESPONDING)
          \<and> map goal_view (goals ag') =
              [(DEPLOY_RESOURCES, 5, ''pending''), (EVACUATE_CIVILIANS, 5, ''pending''),
               (PROVIDE_MEDICAL_AID, 4, ''pending''), (RESTORE_INFRASTRUCTURE, 3, ''pending''),
               (MONITOR_RECOVERY, 2, ''pending'')])"
proof -
  let ?ag = "ResponseAgent_setup\<lparr>current_event := Some example_event\<rparr>"
  have a: "current_event ?ag = Some example_event" "goals ?ag = []" "ed_severity example_event = Some 5"
    by (simp_all add: ResponseAgent_setup_def example_event_def)
  show ?thesis
    using C1_planning_goals[of example_clock ResponseAgent_setup 5]
      C1_planning_goals[of example_clock ResponseAgent_setup 1]
      C1_planning_goals[of example_clock ?ag 5] a
    by auto
qed

subsection \<open>The clamp ranges of the environment\<close>

lemma update_conditions_clamped:
  "within_clamp_ranges (current_conditions (update_conditions d env))"
  by (simp add: update_conditions_def within_clamp_ranges_def Let_def)

lemma detect_conditions:
  "current_conditions (snd (detect b d t s st)) = current_conditions (snd st)"
  by (simp add: detect_def create_disaster_event_def Let_def)

text \<open>\<open>check_for_disasters\<close> as the composition of its five rules.\<close>

lemma check_for_disasters_eq:
  "check_for_disasters d env =
     (let c = current_conditions env;
          st = detect (random_roll d < 0.10) (random_draws d) (random_type d) (random_severity d)
                (detect (wind_speed c > 120) (hurricane_draws d) HURRICANE
                   (determine_hurricane_severity (wind_speed c))
                  (detect (temperature c > 35 \<and> humidity c < 20) (fire_draws d) FIRE
                     (determine_fire_severity (temperature c))
                    (detect (water_level c > 10.0) (flood_draws d) FLOOD
                       (determine_flood_severity (water_level c))
                      (detect (seismic_activity c > 4.0) (earthquake_draws d) EARTHQUAKE
                         (determine_earthquake_severity (seismic_activity c)) ([], env)))))
      in (fst st, (snd st)\<lparr>active_disasters := active_disasters (snd st) @ fst st,
              event_history := event_history (snd st) @ fst st\<rparr>))"
  unfolding check_for_disasters_def Let_def by (simp only: case_prod_beta)

lemma check_for_disasters_conditions:
  "current_conditions (snd (check_for_disasters d env)) = current_conditions env"
  unfolding check_for_disasters_eq Let_def by (simp add: detect_conditions)

lemma env_apply_clamped:
  "within_clamp_ranges (current_conditions env) \<Longrightarrow>
   within_clamp_ranges (current_conditions (env_apply op env))"
  by (cases op) (simp_all add: update_conditions_clamped check_for_disasters_conditions)

lemma fold_env_apply_clamped:
  "within_clamp_ranges (current_conditions env) \<Longrightarrow>
   within_clamp_ranges (current_conditions (fold env_apply ops env))"
  by (induction ops arbitrary: env) (simp_all add: env_apply_clamped)

text \<open>
  C2. After \<open>update_conditions\<close> returns, whatever the environment and the draws were, the
  temperature lies in [-10, 45], the humidity in [0, 100], the wind speed in [0, 150], the air
  quality in [0, 500] and the water level in [0, 20]; and the same holds after every sequence
  of operations on an environment that starts from the initial conditions.
\<close>

theorem C2_conditions_clamped:
  "within_clamp_ranges (current_conditions (update_conditions d env))
   \<and> within_clamp_ranges (current_conditions (env_run ops (DisasterEnvironment_init loc t)))"
proof -
  have "within_clamp_ranges (current_conditions (DisasterEnvironment_init loc t))"
    by (simp add: DisasterEnvironment_init_def initialize_conditions_def within_clamp_ranges_def)
  then show ?thesis
    by (simp add: update_conditions_clamped env_run_def fold_env_apply_clamped)
qed

text \<open>Draws that would leave three of the ranges are absorbed at the bounds.\<close>

theorem C2_conditions_clamped_witness:
  "within_clamp_ranges (current_conditions (update_conditions example_condition_draws example_environment))
   \<and> temperature (current_conditions (update_conditions example_condition_draws example_environment)) = 45
   \<and> air_quality (current_conditions (update_conditions example_condition_draws example_environment)) = 500
   \<and> water_level (current_conditions (update_conditions example_condition_draws example_environment)) = 0
   \<and> within_clamp_ranges (current_conditions
        (env_run [Update example_condition_draws, Update example_condition_draws]
           (DisasterEnvironment_init ''Disaster Zone Alpha'' ''2026-01-29T09:00:00'')))"
  using C2_conditions_clamped[of example_condition_draws example_environment
      "[Update example_condition_draws, Update example_condition_draws]"
      "''Disaster Zone Alpha''" "''2026-01-29T09:00:00''"]
  by (simp add: update_conditions_def example_condition_draws_def example_environment_def Let_def)

subsection \<open>Earthquake severity bands\<close>

text \<open>
  C9. The earthquake severity is a function of the magnitude by half-open bands: below 4.5
  Minimal, from 4.5 to below 5.5 Low, from 5.5 to below 6.5 Moderate, from 6.5 to below 7.5
  High, from 7.5 on Critical.
\<close>

theorem C9_earthquake_bands:
  "(m < 4.5 \<longrightarrow> determine_earthquake_severity m = MINIMAL)
   \<and> (4.5 \<le> m \<and> m < 5.5 \<longrightarrow> determine_earthquake_severity m = LOW)
   \<and> (5.5 \<le> m \<and> m < 6.5 \<longrightarrow> determine_earthquake_severity m = MODERATE)
   \<and> (6.5 \<le> m \<and> m < 7.5 \<longrightarrow> determine_earthquake_severity m = HIGH)
   \<and> (7.5 \<le> m \<longrightarrow> determine_earthquake_severity m = CRITICAL)"
  by simp

text \<open>The values of the specification and the four boundaries.\<close>

theorem C9_earthquake_bands_witness:
  "determine_earthquake_severity 4.4 = MINIMAL
   \<and> determine_earthquake_severity 4.5 = LOW
   \<and> determine_earthquake_severity 5.4 = LOW
   \<and> determine_earthquake_severity 5.5 = MODERATE
   \<and> determine_earthquake_severity 6.4 = MODERATE
   \<and> determine_earthquake_severity 6.5 = HIGH
   \<and> determine_earthquake_severity 7.4 = HIGH
   \<and> determine_earthquake_severity 7.5 = CRITICAL
   \<and> determine_earthquake_severity 8.0 = CRITICAL"
  using C9_earthquake_bands[of "4.4"] C9_earthquake_bands[of "4.5"] C9_earthquake_bands[of "5.4"]
    C9_earthquake_bands[of "5.5"] C9_earthquake_bands[of "6.4"] C9_earthquake_bands[of "6.5"]
    C9_earthquake_bands[of "7.4"] C9_earthquake_bands[of "7.5"] C9_earthquake_bands[of "8.0"]
  by simp

subsection \<open>RESPONDING executes the pending goals by priority\<close>

lemma insort_key_lex:
  "sorted (map f ys) \<Longrightarrow> sorted_wrt (\<lambda>a b. f a < f b \<or> (f a = f b \<and> R a b)) ys \<Longrightarrow>
   \<forall>y\<in>set ys. R x y \<Longrightarrow>
   sorted_wrt (\<lambda>a b. f a < f b \<or> (f a = f b \<and> R a b)) (insort_key f x ys)"
  by (induction ys) (auto simp: set_insort_key)

lemma sort_key_lex:
  "sorted_wrt R xs \<Longrightarrow> sorted_wrt (\<lambda>a b. f a < f b \<or> (f a = f b \<and> R a b)) (sort_key f xs)"
  by (induction xs) (auto simp: insort_key_lex)

lemma pending_goals_sorted: "sorted_wrt (<) (pending_goals gs)"
  unfolding pending_goals_def by (simp add: sorted_wrt_filter)

lemma execution_order_lex:
  "sorted_wrt (\<lambda>i j. priority (gs ! i) > priority (gs ! j)
                    \<or> (priority (gs ! i) = priority (gs ! j) \<and> i < j)) (execution_order gs)"
  unfolding execution_order_def py_sort_reverse_def
  using sort_key_lex[OF pending_goals_sorted, of "\<lambda>i. - priority (gs ! i)" gs] by simp

lemma set_execution_order:
  "set (execution_order gs) = {i. i < length gs \<and> status (gs ! i) = ''pending''}"
  unfolding execution_order_def py_sort_reverse_def pending_goals_def by auto

lemma distinct_execution_order: "distinct (execution_order gs)"
  unfolding execution_order_def py_sort_reverse_def pending_goals_def by simp

lemma length_execute_goals: "length (execute_goals now k is gs) = length gs"
  by (induction "is" arbitrary: k gs) auto

lemma execute_goals_other: "i \<notin> set is \<Longrightarrow> execute_goals now k is gs ! i = gs ! i"
  by (induction "is" arbitrary: k gs) auto

lemma execute_goals_done:
  "distinct is \<Longrightarrow> n < length is \<Longrightarrow> is ! n < length gs \<Longrightarrow>
   execute_goals now k is gs ! (is ! n) =
     (gs ! (is ! n))\<lparr>status := ''completed'', completed_at := Some (now (k + n))\<rparr>"
proof (induction "is" arbitrary: k gs n)
  case Nil
  then show ?case by simp
next
  case (Cons i rest)
  show ?case
  proof (cases n)
    case 0
    with Cons.prems show ?thesis by (simp add: execute_goals_other)
  next
    case (Suc m)
    with Cons.prems have "rest ! m \<noteq> i" by auto
    with Cons Suc show ?thesis by simp
  qed
qed

text \<open>
  C5. In RESPONDING, for any list of goals of the agent, the goals executed are exactly the
  pending ones, each once; they are executed in non-increasing priority order, and goals of
  equal priority in the order of their positions in the agent's list, which is the order of
  their creation; the n-th executed goal becomes completed (with the n-th timestamp), the
  goals that were not pending are left as they were, and the machine goes to MONITORING.
\<close>

theorem C5_responding_order:
  "set (execution_order gs) = {i. i < length gs \<and> status (gs ! i) = ''pending''}
   \<and> distinct (execution_order gs)
   \<and> sorted_wrt (\<lambda>i j. priority (gs ! i) > priority (gs ! j)
                        \<or> (priority (gs ! i) = priority (gs ! j) \<and> i < j)) (execution_order gs)
   \<and> (\<exists>ag'. RespondingState_run now ag = Inr (ag', STATE_MONITORING)
          \<and> length (goals ag') = length (goals ag)
          \<and> (\<forall>n < length (execution_order (goals ag)).
                goals ag' ! (execution_order (goals ag) ! n) =
                  (goals ag ! (execution_order (goals ag) ! n))
                    \<lparr>status := ''completed'', completed_at := Some (now n)\<rparr>)
          \<and> (\<forall>i < length (goals ag).
                status (goals ag ! i) \<noteq> ''pending'' \<longrightarrow> goals ag' ! i = goals ag ! i))"
proof -
  have ord: "\<forall>n < length (execution_order (goals ag)).
               execution_order (goals ag) ! n < length (goals ag)"
    using set_execution_order[of "goals ag"] nth_mem by blast
  have other: "\<forall>i < length (goals ag).
                 status (goals ag ! i) \<noteq> ''pending'' \<longrightarrow> i \<notin> set (execution_order (goals ag))"
    by (simp add: set_execution_order)
  show ?thesis
    using ord other
    by (simp add: set_execution_order distinct_execution_order execution_order_lex
        RespondingState_run_def Let_def length_execute_goals execute_goals_other
        execute_goals_done[OF distinct_execution_order, where k = 0, simplified])
qed

lemma example_order: "execution_order example_goals = [2, 4, 3, 0]"
  by code_simp

text \<open>
  Five goals, four of them pending with priorities 2, 5, 4, 5 at positions 0, 2, 3, 4: the
  two goals of priority 5 run first, in their order of creation.
\<close>

theorem C5_responding_order_witness:
  "execution_order (goals example_agent) = [2, 4, 3, 0]
   \<and> map (\<lambda>i. priority (goals example_agent ! i)) (execution_order (goals example_agent)) = [5, 5, 4, 2]
   \<and> (\<exists>ag'. RespondingState_run example_clock example_agent = Inr (ag', STATE_MONITORING)
          \<and> map status (goals ag') =
              [''completed'', ''completed'', ''completed'', ''completed'', ''completed'']
          \<and> goals ag' ! 1 = goals example_agent ! 1)"
proof -
  have o: "execution_order (goals example_agent) = [2, 4, 3, 0]"
    by (simp add: example_agent_def example_order)
  have p: "map (\<lambda>i. priority (goals example_agent ! i)) [2, 4, 3, 0] = [5, 5, 4, 2]"
    by (simp add: example_agent_def example_goals_def)
  have l: "length (goals example_agent) = 5" "status (goals example_agent ! 1) = ''completed''"
    by (simp_all add: example_agent_def example_goals_def)
  obtain ag' where r: "RespondingState_run example_clock example_agent = Inr (ag', STATE_MONITORING)"
    and len: "length (goals ag') = 5"
    and ex: "\<forall>n < 4. goals ag' ! ([2, 4, 3, 0] ! n) =
                  (goals example_agent ! ([2, 4, 3, 0] ! n))
                    \<lparr>status := ''completed'', completed_at := Some (example_clock n)\<rparr>"
    and ot: "goals ag' ! 1 = goals example_agent ! 1"
    using C5_responding_order[of "goals example_agent" example_clock example_agent] o l by auto
  have "status (goals ag' ! 0) = ''completed''" "status (goals ag' ! 2) = ''completed''"
    "status (goals ag' ! 3) = ''completed''" "status (goals ag' ! 4) = ''completed''"
    using ex[rule_format, of 3] ex[rule_format, of 0] ex[rule_format, of 2] ex[rule_format, of 1]
    by simp_all
  moreover have "status (goals ag' ! 1) = ''completed''" using ot l by simp
  ultimately have "map status (goals ag') =
      [''completed'', ''completed'', ''completed'', ''completed'', ''completed'']"
    using len by (auto simp: list_eq_iff_nth_eq less_Suc_eq numeral_eq_Suc)
  with r ot o p show ?thesis by simp
qed

subsection \<open>The responder grants what it holds\<close>

text \<open>
  C3. For every resource request (with an event id) received by a responder that holds the
  three resource types, the amount granted per type is the minimum of the amount requested and
  the amount held, the held amount is decreased by exactly the amount granted, and the reply
  goes back to the sender as an inform-type resource response that carries the granted amounts
  with status "resources_allocated". The requested amounts need not be non-negative for this.
\<close>

theorem C3_resource_grant:
  assumes "msg_body msg = Some request_data"
    and "b_event_id request_data = Some eid"
    and "available_resources ag ''rescue_teams'' = Some teams"
    and "available_resources ag ''medical_units'' = Some units"
    and "available_resources ag ''equipment'' = Some equip"
  shows "\<exists>ag' reply content.
           handle_resource_request now msg ag = Inr (ag', reply)
           \<and> msg_body reply = Some content
           \<and> b_status content = Some ''resources_allocated''
           \<and> b_resources_available content =
               Some [''rescue_teams'' \<mapsto> min (requested_amount request_data ''rescue_teams'') teams,
                     ''medical_units'' \<mapsto> min (requested_amount request_data ''medical_units'') units,
                     ''equipment'' \<mapsto> min (requested_amount request_data ''equipment'') equip]
           \<and> available_resources ag' =
               (available_resources ag)
                 (''rescue_teams'' \<mapsto> teams - min (requested_amount request_data ''rescue_teams'') teams,
                  ''medical_units'' \<mapsto> units - min (requested_amount request_data ''medical_units'') units,
                  ''equipment'' \<mapsto> equip - min (requested_amount request_data ''equipment'') equip)
           \<and> msg_to reply = msg_sender msg
           \<and> msg_performative reply = Some ''inform''
           \<and> msg_message_type reply = Some ''resource_response''
           \<and> msg_conversation_id reply = Some eid"
  using assms
  by (simp add: handle_resource_request_def requested_amount_def Let_def)

text \<open>
  Held 5, requested 8: granted 5, held becomes 0. Held 5, requested 3: granted 3, held
  becomes 2. Held 10, requested 12: granted 10, held becomes 0.
\<close>

theorem C3_resource_grant_witness:
  "\<exists>ag' reply content.
     handle_resource_request example_clock example_request example_rescue_agent = Inr (ag', reply)
     \<and> msg_body reply = Some content
     \<and> b_status content = Some ''resources_allocated''
     \<and> b_resources_available content =
          Some [''rescue_teams'' \<mapsto> 5, ''medical_units'' \<mapsto> 3, ''equipment'' \<mapsto> 10]
     \<and> available_resources ag' = [''rescue_teams'' \<mapsto> 0, ''medical_units'' \<mapsto> 2, ''equipment'' \<mapsto> 0]"
proof -
  have b: "msg_body example_request = Some (empty_body
        \<lparr>b_event_id := Some ''EVENT-4711'',
         b_disaster_type := Some ''Flood'',
         b_severity := Some 4,
         b_resources_requested :=
           Some [''rescue_teams'' \<mapsto> 8, ''medical_units'' \<mapsto> 3, ''equipment'' \<mapsto> 12]\<rparr>)"
    by (simp add: example_request_def)
  have e: "b_event_id (empty_body
        \<lparr>b_event_id := Some ''EVENT-4711'',
         b_disaster_type := Some ''Flood'',
         b_severity := Some 4,
         b_resources_requested :=
           Some [''rescue_teams'' \<mapsto> 8, ''medical_units'' \<mapsto> 3, ''equipment'' \<mapsto> 12]\<rparr>)
         = Some ''EVENT-4711''"
    by simp
  have h: "available_resources example_rescue_agent ''rescue_teams'' = Some 5"
    "available_resources example_rescue_agent ''medical_units'' = Some 5"
    "available_resources example_rescue_agent ''equipment'' = Some 10"
    by (simp_all add: example_rescue_agent_def RescueAgent_setup_def)
  have a: "available_resources example_rescue_agent =
     [''rescue_teams'' \<mapsto> 5, ''medical_units'' \<mapsto> 5, ''equipment'' \<mapsto> 10]"
    by (simp add: example_rescue_agent_def RescueAgent_setup_def)
  show ?thesis
    using C3_resource_grant[OF b e h, of example_clock]
    by (simp add: requested_amount_def dict_get_def empty_body_def a) blast
qed

subsection \<open>The coordinator requests resources from every responder\<close>

lemma send_requests_sent:
  assumes "b_event_id dd = Some eid"
  shows "\<exists>cc' sent. send_requests now k dd sev rn agents cc = Inr (cc', sent)
           \<and> map msg_to sent = agents
           \<and> (\<forall>m \<in> set sent.
                 msg_performative m = Some ''request''
                 \<and> msg_message_type m = Some ''resource_request''
                 \<and> msg_conversation_id m = Some eid
                 \<and> (\<exists>content. msg_body m = Some content
                       \<and> b_event_id content = Some eid
                       \<and> b_severity content = Some sev
                       \<and> b_resources_requested content = Some rn))"
proof (induction agents arbitrary: k cc)
  case Nil
  show ?case by simp
next
  case (Cons a agents)
  let ?cc = "cc\<lparr>cc_message_log := cc_message_log cc @
      [\<lparr>log_timestamp = now k, log_sender = cc_jid cc, log_receiver = a,
        log_performative = Some (performative_value REQUEST),
        log_message_type = Some (message_type_value RESOURCE_REQUEST),
        log_content = empty_body\<lparr>b_event_id := b_event_id dd, b_disaster_type := b_disaster_type dd,
                        b_severity := Some sev, b_resources_requested := Some rn\<rparr>,
        log_conversation_id = b_event_id dd\<rparr>]\<rparr>"
  from Cons[of "k + 1" ?cc] obtain cc' sent where
    r: "send_requests now (k + 1) dd sev rn agents ?cc = Inr (cc', sent)"
    and t: "map msg_to sent = agents"
    and e: "\<forall>m \<in> set sent.
                 msg_performative m = Some ''request''
                 \<and> msg_message_type m = Some ''resource_request''
                 \<and> msg_conversation_id m = Some eid
                 \<and> (\<exists>content. msg_body m = Some content
                       \<and> b_event_id content = Some eid
                       \<and> b_severity content = Some sev
                       \<and> b_resources_requested content = Some rn)"
    by blast
  show ?case
    using assms r t e by (simp add: Let_def)
qed

text \<open>
  C4. For every disaster alert of severity s (with an event id) that the coordinator receives,
  it sends one resource_request message per entry of its list of known responders, addressed
  to that responder, in the order of the list; each request carries resources_requested =
  {rescue_teams: 2*s, medical_units: s, equipment: 3*s} and, as its conversation id, the
  event id of the alert, so the id is the same on all of them.
\<close>

theorem C4_resource_requests:
  assumes "msg_performative alert = Some ''inform''"
    and "msg_message_type alert = Some ''disaster_alert''"
    and "msg_body alert = Some disaster_data"
    and "b_severity disaster_data = Some s"
    and "b_event_id disaster_data = Some eid"
  shows "\<exists>cc' sent.
           ReceiveAlertBehaviour_run now (Some alert) cc = Inr (cc', sent)
           \<and> map msg_to sent = rescue_agents cc
           \<and> (\<forall>m \<in> set sent.
                 msg_performative m = Some ''request''
                 \<and> msg_message_type m = Some ''resource_request''
                 \<and> msg_conversation_id m = Some eid
                 \<and> (\<exists>content. msg_body m = Some content
                       \<and> b_resources_requested content =
                           Some [''rescue_teams'' \<mapsto> 2 * s, ''medical_units'' \<mapsto> s, ''equipment'' \<mapsto> 3 * s]))"
proof -
  let ?rn = "[''rescue_teams'' \<mapsto> s * 2, ''medical_units'' \<mapsto> s * 1, ''equipment'' \<mapsto> s * 3]"
  have rn: "?rn = [''rescue_teams'' \<mapsto> 2 * s, ''medical_units'' \<mapsto> s, ''equipment'' \<mapsto> 3 * s]"
    by (simp add: mult.commute)
  obtain cc1 where run: "ReceiveAlertBehaviour_run now (Some alert) cc =
      send_requests (\<lambda>k. now (k + 1)) 0 disaster_data s ?rn (rescue_agents cc) cc1"
    and ra: "rescue_agents cc1 = rescue_agents cc"
    using assms(1-4)
    by (simp add: ReceiveAlertBehaviour_run_def handle_disaster_alert_def
        request_rescue_resources_def Let_def)
  from send_requests_sent[OF assms(5), of "\<lambda>k. now (k + 1)" 0 s ?rn "rescue_agents cc" cc1]
  obtain cc' sent where
    r: "send_requests (\<lambda>k. now (k + 1)) 0 disaster_data s ?rn (rescue_agents cc) cc1 = Inr (cc', sent)"
    and t: "map msg_to sent = rescue_agents cc"
    and e: "\<forall>m \<in> set sent.
                 msg_performative m = Some ''request''
                 \<and> msg_message_type m = Some ''resource_request''
                 \<and> msg_conversation_id m = Some eid
                 \<and> (\<exists>content. msg_body m = Some content
                       \<and> b_event_id content = Some eid
                       \<and> b_severity content = Some s
                       \<and> b_resources_requested content = Some ?rn)"
    by blast
  have e': "\<forall>m \<in> set sent.
                 msg_performative m = Some ''request''
                 \<and> msg_message_type m = Some ''resource_request''
                 \<and> msg_conversation_id m = Some eid
                 \<and> (\<exists>content. msg_body m = Some content
                       \<and> b_resources_requested content =
                           Some [''rescue_teams'' \<mapsto> 2 * s, ''medical_units'' \<mapsto> s, ''equipment'' \<mapsto> 3 * s])"
    using e unfolding rn by blast
  from run r have "ReceiveAlertBehaviour_run now (Some alert) cc = Inr (cc', sent)" by simp
  with t e' show ?thesis
    by (intro exI[of _ cc'] exI[of _ sent] conjI)
qed

lemma example_alert_body:
  "generate_disaster example_disaster_draws = empty_body
           \<lparr>b_event_id := Some ''EVENT-4711'',
            b_disaster_type := Some ''Flood'',
            b_severity := Some 3,
            b_severity_name := Some ''MODERATE'',
            b_location := Some ''Disaster Zone Alpha'',
            b_timestamp := Some ''2026-01-29T10:00:02''\<rparr>"
proof -
  have "str_int 4711 = ''4711''" by code_simp
  then show ?thesis
    by (simp add: generate_disaster_def example_disaster_draws_def disaster_types_def
        severity_levels_def)
qed

text \<open>
  The sensor's alert EVENT-4711 of severity 3, received by the command center as it is set
  up, with its two responders: two requests, both with conversation id EVENT-4711 and the
  amounts 6, 3 and 9.
\<close>

theorem C4_resource_requests_witness:
  "\<exists>cc' sent.
     ReceiveAlertBehaviour_run example_clock (Some example_alert_message) example_command_center
       = Inr (cc', sent)
     \<and> map msg_to sent = [''rescue1@localhost'', ''rescue2@localhost'']
     \<and> length sent = 2
     \<and> list_all (\<lambda>m. msg_conversation_id m = Some ''EVENT-4711''
                      \<and> (\<exists>content. msg_body m = Some content
                            \<and> b_resources_requested content =
                                Some [''rescue_teams'' \<mapsto> 6, ''medical_units'' \<mapsto> 3, ''equipment'' \<mapsto> 9])) sent"
proof -
  have a: "msg_performative example_alert_message = Some ''inform''"
    "msg_message_type example_alert_message = Some ''disaster_alert''"
    "msg_body example_alert_message = Some (generate_disaster example_disaster_draws)"
    by (simp_all add: example_alert_message_def DetectDisasterBehaviour_run_def Let_def)
  have s: "b_severity (generate_disaster example_disaster_draws) = Some 3"
    "b_event_id (generate_disaster example_disaster_draws) = Some ''EVENT-4711''"
    by (simp_all add: example_alert_body empty_body_def)
  have r: "rescue_agents example_command_center = [''rescue1@localhost'', ''rescue2@localhost'']"
    by (simp add: example_command_center_def CommandCenterAgent_setup_def)
  obtain cc' sent where
    run: "ReceiveAlertBehaviour_run example_clock (Some example_alert_message) example_command_center
       = Inr (cc', sent)"
    and to: "map msg_to sent = [''rescue1@localhost'', ''rescue2@localhost'']"
    and each: "\<forall>m \<in> set sent.
                 msg_performative m = Some ''request''
                 \<and> msg_message_type m = Some ''resource_request''
                 \<and> msg_conversation_id m = Some ''EVENT-4711''
                 \<and> (\<exists>content. msg_body m = Some content
                       \<and> b_resources_requested content =
                           Some [''rescue_teams'' \<mapsto> 6, ''medical_units'' \<mapsto> 3, ''equipment'' \<mapsto> 9])"
    using C4_resource_requests[OF a s, of example_clock example_command_center] r by auto
  have len: "length sent = 2"
    using to by (metis length_map length_Cons list.size(3) numeral_2_eq_2)
  have all: "list_all (\<lambda>m. msg_conversation_id m = Some ''EVENT-4711''
                      \<and> (\<exists>content. msg_body m = Some content
                            \<and> b_resources_requested content =
                                Some [''rescue_teams'' \<mapsto> 6, ''medical_units'' \<mapsto> 3, ''equipment'' \<mapsto> 9])) sent"
    using each by (simp add: list_all_iff)
  from run to len all show ?thesis
    by (intro exI[of _ cc'] exI[of _ sent] conjI)
qed

subsection \<open>The visits of the machine and its trace\<close>

lemma idle_accept:
  "received inp = Some msg \<Longrightarrow> body msg = Some b \<Longrightarrow> loads b = Some (JObject ev) \<Longrightarrow>
   \<exists>ag' e. fsm_step loads inp (ag, STATE_IDLE) = Inr (ag', STATE_ANALYZING)
      \<and> fsm_trace ag' = fsm_trace ag @ [e] \<and> te_state e = STATE_IDLE
      \<and> current_event ag' = Some ev \<and> goals ag' = goals ag"
  by (simp add: fsm_step_def IdleState_run_def)

lemma idle_discard:
  "received inp = None \<or> (received inp = Some msg \<and> body msg = Some b \<and> loads b = None) \<Longrightarrow>
   fsm_step loads inp (ag, STATE_IDLE) = Inr (ag, STATE_IDLE)"
  by (auto simp: fsm_step_def IdleState_run_def)

lemma analyzing_step:
  "current_event ag = Some ev \<Longrightarrow>
   \<exists>ag' e g. fsm_step loads inp (ag, STATE_ANALYZING) = Inr (ag', STATE_PLANNING)
      \<and> fsm_trace ag' = fsm_trace ag @ [e] \<and> te_state e = STATE_ANALYZING
      \<and> current_event ag' = Some ev \<and> goals ag' = goals ag @ [g]"
  by (simp add: fsm_step_def AnalyzingState_run_def Let_def)

lemma planning_step:
  "current_event ag = Some ev \<Longrightarrow>
   \<exists>ag' e gs. fsm_step loads inp (ag, STATE_PLANNING) = Inr (ag', STATE_RESPONDING)
      \<and> fsm_trace ag' = fsm_trace ag @ [e] \<and> te_state e = STATE_PLANNING
      \<and> current_event ag' = Some ev \<and> goals ag' = goals ag @ gs"
  by (simp add: fsm_step_def PlanningState_run_def Let_def)

lemma responding_step:
  "\<exists>ag' e. fsm_step loads inp (ag, STATE_RESPONDING) = Inr (ag', STATE_MONITORING)
      \<and> fsm_trace ag' = fsm_trace ag @ [e] \<and> te_state e = STATE_RESPONDING
      \<and> current_event ag' = current_event ag \<and> length (goals ag') = length (goals ag)"
  by (simp add: fsm_step_def RespondingState_run_def Let_def length_execute_goals)

lemma monitoring_step:
  "goals ag \<noteq> [] \<Longrightarrow>
   \<exists>ag' e. fsm_step loads inp (ag, STATE_MONITORING) = Inr (ag', STATE_COMPLETED)
      \<and> fsm_trace ag' = fsm_trace ag @ [e] \<and> te_state e = STATE_MONITORING
      \<and> current_event ag' = current_event ag \<and> goals ag' = goals ag"
  by (simp add: fsm_step_def MonitoringState_run_def success_rate_def Let_def)

lemma completed_step:
  "current_event ag = Some ev \<Longrightarrow>
   \<exists>ag' e. fsm_step loads inp (ag, STATE_COMPLETED) = Inr (ag', STATE_IDLE)
      \<and> fsm_trace ag' = fsm_trace ag @ [e] \<and> te_state e = STATE_COMPLETED
      \<and> current_event ag' = None \<and> goals ag' = goals ag"
  by (simp add: fsm_step_def CompletedState_run_def)

lemma other_state_appends:
  assumes "st \<noteq> STATE_IDLE" and "fsm_step loads inp (ag, st) = Inr (ag', st')"
  shows "\<exists>e. fsm_trace ag' = fsm_trace ag @ [e] \<and> te_state e = st"
proof (cases st)
  case STATE_IDLE
  with assms show ?thesis by simp
next
  case STATE_ANALYZING
  with assms(2) show ?thesis
    by (auto simp: fsm_step_def AnalyzingState_run_def Let_def split: option.splits)
next
  case STATE_PLANNING
  with assms(2) show ?thesis
    by (auto simp: fsm_step_def PlanningState_run_def Let_def split: option.splits)
next
  case STATE_RESPONDING
  with assms(2) show ?thesis
    by (auto simp: fsm_step_def RespondingState_run_def Let_def)
next
  case STATE_MONITORING
  with assms(2) show ?thesis
    by (auto simp: fsm_step_def MonitoringState_run_def Let_def split: sum.splits)
next
  case STATE_COMPLETED
  with assms(2) show ?thesis
    by (auto simp: fsm_step_def CompletedState_run_def split: option.splits)
qed

text \<open>One event taken through the six states.\<close>

lemma full_cycle:
  assumes "received i1 = Some msg" and "body msg = Some b" and "loads b = Some (JObject ev)"
  shows "\<exists>ag' es. fsm_run loads [i1, i2, i3, i4, i5, i6] (ag, STATE_IDLE) = Inr (ag', STATE_IDLE)
           \<and> fsm_trace ag' = fsm_trace ag @ es
           \<and> map te_state es = [STATE_IDLE, STATE_ANALYZING, STATE_PLANNING, STATE_RESPONDING,
                                 STATE_MONITORING, STATE_COMPLETED]"
proof -
  obtain a1 e1 where s1: "fsm_step loads i1 (ag, STATE_IDLE) = Inr (a1, STATE_ANALYZING)"
    and t1: "fsm_trace a1 = fsm_trace ag @ [e1]" "te_state e1 = STATE_IDLE"
    and c1: "current_event a1 = Some ev"
    using idle_accept[of i1 msg b loads ev ag] assms by blast
  obtain a2 e2 g where s2: "fsm_step loads i2 (a1, STATE_ANALYZING) = Inr (a2, STATE_PLANNING)"
    and t2: "fsm_trace a2 = fsm_trace a1 @ [e2]" "te_state e2 = STATE_ANALYZING"
    and c2: "current_event a2 = Some ev" and g2: "goals a2 = goals a1 @ [g]"
    using analyzing_step[OF c1, of loads i2] by blast
  obtain a3 e3 gs where s3: "fsm_step loads i3 (a2, STATE_PLANNING) = Inr (a3, STATE_RESPONDING)"
    and t3: "fsm_trace a3 = fsm_trace a2 @ [e3]" "te_state e3 = STATE_PLANNING"
    and c3: "current_event a3 = Some ev" and g3: "goals a3 = goals a2 @ gs"
    using planning_step[OF c2, of loads i3] by blast
  obtain a4 e4 where s4: "fsm_step loads i4 (a3, STATE_RESPONDING) = Inr (a4, STATE_MONITORING)"
    and t4: "fsm_trace a4 = fsm_trace a3 @ [e4]" "te_state e4 = STATE_RESPONDING"
    and c4: "current_event a4 = current_event a3" and g4: "length (goals a4) = length (goals a3)"
    using responding_step[of loads i4 a3] by blast
  have "goals a4 \<noteq> []" using g4 g3 g2 by auto
  then obtain a5 e5 where s5: "fsm_step loads i5 (a4, STATE_MONITORING) = Inr (a5, STATE_COMPLETED)"
    and t5: "fsm_trace a5 = fsm_trace a4 @ [e5]" "te_state e5 = STATE_MONITORING"
    and c5: "current_event a5 = current_event a4"
    using monitoring_step[of a4 loads i5] by blast
  have "current_event a5 = Some ev" using c5 c4 c3 by simp
  then obtain a6 e6 where s6: "fsm_step loads i6 (a5, STATE_COMPLETED) = Inr (a6, STATE_IDLE)"
    and t6: "fsm_trace a6 = fsm_trace a5 @ [e6]" "te_state e6 = STATE_COMPLETED"
    using completed_step[of a5 ev loads i6] by blast
  have r: "fsm_run loads [i1, i2, i3, i4, i5, i6] (ag, STATE_IDLE) = Inr (a6, STATE_IDLE)"
    by (simp add: s1 s2 s3 s4 s5 s6)
  have t: "fsm_trace a6 = fsm_trace ag @ [e1, e2, e3, e4, e5, e6]"
    by (simp add: t1 t2 t3 t4 t5 t6)
  have m: "map te_state [e1, e2, e3, e4, e5, e6] =
      [STATE_IDLE, STATE_ANALYZING, STATE_PLANNING, STATE_RESPONDING, STATE_MONITORING,
       STATE_COMPLETED]"
    by (simp add: t1 t2 t3 t4 t5 t6)
  from r t m show ?thesis
    by (intro exI[of _ a6] exI[of _ "[e1, e2, e3, e4, e5, e6]"] conjI)
qed

text \<open>
  C6, as stated, fails: an IDLE visit whose \<open>receive\<close> times out, and one whose message body is
  not JSON, leave the configuration as it was, so the trace (empty here) gains no entry.
\<close>

theorem C6_idle_visit_without_entry:
  "fsm_step example_loads example_timeout fsm_initial = Inr fsm_initial
   \<and> fsm_step example_loads example_garbled fsm_initial = Inr fsm_initial
   \<and> fsm_trace (fst fsm_initial) = []"
  by (simp add: fsm_step_def fsm_initial_def IdleState_run_def example_timeout_def
      example_garbled_def example_loads_def example_body_def ResponseAgent_setup_def)

text \<open>
  C6, amended. Every visit to ANALYZING, PLANNING, RESPONDING, MONITORING or COMPLETED that
  returns appends exactly one entry to the trace, for the state visited, and keeps the earlier
  entries. A visit to IDLE appends exactly one entry, for IDLE, when the body of the received
  message decodes to a JSON object, and goes to ANALYZING; it appends nothing and stays in IDLE
  when \<open>receive\<close> times out or the body does not decode. For one such event taken from IDLE, the
  trace gains exactly six entries, for IDLE, ANALYZING, PLANNING, RESPONDING, MONITORING and
  COMPLETED in this order, and the machine is back in IDLE.
\<close>

theorem C6_trace_entries:
  "(st \<noteq> STATE_IDLE \<and> fsm_step loads inp (ag, st) = Inr (ag', st') \<longrightarrow>
      (\<exists>e. fsm_trace ag' = fsm_trace ag @ [e] \<and> te_state e = st))
   \<and> (received inp = Some msg \<and> body msg = Some b \<and> loads b = Some (JObject ev) \<longrightarrow>
      (\<exists>ag1 e. fsm_step loads inp (ag, STATE_IDLE) = Inr (ag1, STATE_ANALYZING)
          \<and> fsm_trace ag1 = fsm_trace ag @ [e] \<and> te_state e = STATE_IDLE))
   \<and> (received inp = None \<or> (received inp = Some msg \<and> body msg = Some b \<and> loads b = None) \<longrightarrow>
      fsm_step loads inp (ag, STATE_IDLE) = Inr (ag, STATE_IDLE))
   \<and> (received inp = Some msg \<and> body msg = Some b \<and> loads b = Some (JObject ev) \<longrightarrow>
      (\<exists>ag6 es. fsm_run loads [inp, i2, i3, i4, i5, i6] (ag, STATE_IDLE) = Inr (ag6, STATE_IDLE)
          \<and> fsm_trace ag6 = fsm_trace ag @ es
          \<and> map te_state es = [STATE_IDLE, STATE_ANALYZING, STATE_PLANNING, STATE_RESPONDING,
                                STATE_MONITORING, STATE_COMPLETED]))"
proof (intro conjI impI)
  assume "st \<noteq> STATE_IDLE \<and> fsm_step loads inp (ag, st) = Inr (ag', st')"
  then show "\<exists>e. fsm_trace ag' = fsm_trace ag @ [e] \<and> te_state e = st"
    using other_state_appends by blast
next
  assume "received inp = Some msg \<and> body msg = Some b \<and> loads b = Some (JObject ev)"
  then show "\<exists>ag1 e. fsm_step loads inp (ag, STATE_IDLE) = Inr (ag1, STATE_ANALYZING)
          \<and> fsm_trace ag1 = fsm_trace ag @ [e] \<and> te_state e = STATE_IDLE"
    using idle_accept[of inp msg b loads ev ag] by blast
next
  assume "received inp = None \<or> (received inp = Some msg \<and> body msg = Some b \<and> loads b = None)"
  then show "fsm_step loads inp (ag, STATE_IDLE) = Inr (ag, STATE_IDLE)"
    by (rule idle_discard)
next
  assume "received inp = Some msg \<and> body msg = Some b \<and> loads b = Some (JObject ev)"
  then show "\<exists>ag6 es. fsm_run loads [inp, i2, i3, i4, i5, i6] (ag, STATE_IDLE) = Inr (ag6, STATE_IDLE)
          \<and> fsm_trace ag6 = fsm_trace ag @ es
          \<and> map te_state es = [STATE_IDLE, STATE_ANALYZING, STATE_PLANNING, STATE_RESPONDING,
                                STATE_MONITORING, STATE_COMPLETED]"
    using full_cycle[of inp msg b loads ev i2 i3 i4 i5 i6 ag] by blast
qed

lemma example_alert_decodes:
  "received example_alert = Some \<lparr>sender = ''sensor@localhost'', body = Some example_body\<rparr>"
  "body \<lparr>sender = ''sensor@localhost'', body = Some example_body\<rparr> = Some example_body"
  "example_loads example_body = Some (JObject example_event)"
  by (simp_all add: example_alert_def example_loads_def)

text \<open>
  The example alert taken from the initial configuration: six entries, in order. A RESPONDING
  visit of the example agent: one entry, for RESPONDING.
\<close>

theorem C6_trace_entries_witness:
  "(\<exists>ag6. fsm_run example_loads
            [example_alert, example_timeout, example_timeout, example_timeout, example_timeout,
             example_timeout] fsm_initial = Inr (ag6, STATE_IDLE)
        \<and> map te_state (fsm_trace ag6) =
            [STATE_IDLE, STATE_ANALYZING, STATE_PLANNING, STATE_RESPONDING, STATE_MONITORING,
             STATE_COMPLETED])
   \<and> (\<exists>ag' e. fsm_step example_loads example_timeout (example_agent, STATE_RESPONDING)
                 = Inr (ag', STATE_MONITORING)
        \<and> fsm_trace ag' = [e] \<and> te_state e = STATE_RESPONDING)"
proof -
  have "\<exists>ag6. fsm_run example_loads
            [example_alert, example_timeout, example_timeout, example_timeout, example_timeout,
             example_timeout] fsm_initial = Inr (ag6, STATE_IDLE)
        \<and> map te_state (fsm_trace ag6) =
            [STATE_IDLE, STATE_ANALYZING, STATE_PLANNING, STATE_RESPONDING, STATE_MONITORING,
             STATE_COMPLETED]"
    using C6_trace_entries[of STATE_ANALYZING example_loads example_alert ResponseAgent_setup
        ResponseAgent_setup STATE_IDLE
        "\<lparr>sender = ''sensor@localhost'', body = Some example_body\<rparr>" example_body example_event
        example_timeout example_timeout example_timeout example_timeout example_timeout]
      example_alert_decodes
    by (auto simp: fsm_initial_def ResponseAgent_setup_def)
  moreover have "\<exists>ag' e. fsm_step example_loads example_timeout (example_agent, STATE_RESPONDING)
                 = Inr (ag', STATE_MONITORING)
        \<and> fsm_trace ag' = [e] \<and> te_state e = STATE_RESPONDING"
  proof -
    obtain ag' where s: "fsm_step example_loads example_timeout (example_agent, STATE_RESPONDING)
                 = Inr (ag', STATE_MONITORING)"
      using responding_step[of example_loads example_timeout example_agent] by blast
    have "STATE_RESPONDING \<noteq> STATE_IDLE" by simp
    with s C6_trace_entries[of STATE_RESPONDING example_loads example_timeout example_agent ag'
        STATE_MONITORING]
    have "\<exists>e. fsm_trace ag' = fsm_trace example_agent @ [e] \<and> te_state e = STATE_RESPONDING"
      by blast
    then show ?thesis using s by (simp add: example_agent_def)
  qed
  ultimately show ?thesis by blast
qed

subsection \<open>A body that is JSON but not an object\<close>

text \<open>
  C7 fails on the code: the body "5" decodes to the number 5, which has no \<open>get\<close>; the
  \<open>AttributeError\<close> is not caught by \<open>except json.JSONDecodeError\<close> and leaves \<open>IdleState.run\<close>,
  so the message is not discarded with a transition to IDLE, and an alert that follows is not
  processed.
\<close>

theorem C7_non_object_body_propagates:
  "fsm_step example_loads example_number fsm_initial = Inl AttributeError
   \<and> fsm_run example_loads [example_number, example_alert] fsm_initial = Inl AttributeError"
  by (simp add: fsm_step_def fsm_initial_def IdleState_run_def example_number_def
      example_loads_def example_body_def)

subsection \<open>MONITORING never divides by zero\<close>

lemma fsm_step_invariant:
  assumes "fsm_invariant cfg" and "fsm_step loads inp cfg = Inr cfg'"
  shows "fsm_invariant cfg'"
proof -
  obtain ag st where cfg: "cfg = (ag, st)" by (cases cfg)
  show ?thesis
  proof (cases st)
    case STATE_IDLE
    with assms cfg show ?thesis
      by (auto simp: fsm_step_def IdleState_run_def split: option.splits json.splits)
  next
    case STATE_ANALYZING
    with assms cfg show ?thesis
      by (auto simp: fsm_step_def AnalyzingState_run_def Let_def split: option.splits)
  next
    case STATE_PLANNING
    with assms cfg show ?thesis
      by (auto simp: fsm_step_def PlanningState_run_def Let_def split: option.splits)
  next
    case STATE_RESPONDING
    with assms cfg show ?thesis
      using length_execute_goals[of "stamps inp" 0 "execution_order (goals ag)" "goals ag"]
      by (auto simp: fsm_step_def RespondingState_run_def Let_def)
  next
    case STATE_MONITORING
    with assms cfg show ?thesis
      by (auto simp: fsm_step_def MonitoringState_run_def Let_def split: sum.splits)
  next
    case STATE_COMPLETED
    with assms cfg show ?thesis
      by (auto simp: fsm_step_def CompletedState_run_def split: option.splits)
  qed
qed

lemma fsm_run_invariant:
  "fsm_invariant cfg \<Longrightarrow> fsm_run loads inps cfg = Inr cfg' \<Longrightarrow> fsm_invariant cfg'"
proof (induction inps arbitrary: cfg)
  case Nil
  then show ?case by simp
next
  case (Cons inp inps)
  then show ?case
    by (auto split: sum.splits dest: fsm_step_invariant)
qed

lemma fsm_step_no_zero_division:
  assumes "fsm_invariant cfg"
  shows "fsm_step loads inp cfg \<noteq> Inl ZeroDivisionError"
proof -
  obtain ag st where cfg: "cfg = (ag, st)" by (cases cfg)
  show ?thesis
  proof (cases st)
    case STATE_IDLE
    with cfg show ?thesis
      by (auto simp: fsm_step_def IdleState_run_def split: option.splits json.splits)
  next
    case STATE_ANALYZING
    with cfg show ?thesis
      by (auto simp: fsm_step_def AnalyzingState_run_def Let_def split: option.splits)
  next
    case STATE_PLANNING
    with cfg show ?thesis
      by (auto simp: fsm_step_def PlanningState_run_def Let_def split: option.splits)
  next
    case STATE_RESPONDING
    with cfg show ?thesis
      by (auto simp: fsm_step_def RespondingState_run_def Let_def)
  next
    case STATE_MONITORING
    with cfg assms show ?thesis
      by (auto simp: fsm_step_def MonitoringState_run_def success_rate_def Let_def split: sum.splits)
  next
    case STATE_COMPLETED
    with cfg show ?thesis
      by (auto simp: fsm_step_def CompletedState_run_def split: option.splits)
  qed
qed

lemma fsm_run_no_zero_division:
  "fsm_invariant cfg \<Longrightarrow> fsm_run loads inps cfg \<noteq> Inl ZeroDivisionError"
proof (induction inps arbitrary: cfg)
  case Nil
  then show ?case by simp
next
  case (Cons inp inps)
  then show ?case
    using fsm_step_no_zero_division[of cfg loads inp]
    by (auto split: sum.splits dest: fsm_step_invariant)
qed

lemma initial_invariant: "fsm_invariant fsm_initial"
  by (simp add: fsm_initial_def)

text \<open>
  C10. In every run of the machine from its initial configuration, whatever the decoder and
  the inputs of the visits, no visit raises \<open>ZeroDivisionError\<close>; and whenever the run arrives
  at MONITORING the agent has at least one goal, so the success ratio is defined and the
  visit of MONITORING returns and goes to COMPLETED.
\<close>

theorem C10_monitoring_divisor:
  "fsm_run loads inps fsm_initial \<noteq> Inl ZeroDivisionError
   \<and> (\<forall>ag. fsm_run loads inps fsm_initial = Inr (ag, STATE_MONITORING) \<longrightarrow>
         1 \<le> length (goals ag)
         \<and> success_rate (length (filter (\<lambda>g. status g = ''completed'') (goals ag))) (length (goals ag))
             \<noteq> Inl ZeroDivisionError
         \<and> (\<exists>ag'. MonitoringState_run now ag = Inr (ag', STATE_COMPLETED)))"
proof -
  have "fsm_run loads inps fsm_initial \<noteq> Inl ZeroDivisionError"
    by (rule fsm_run_no_zero_division[OF initial_invariant])
  moreover have "1 \<le> length (goals ag)
         \<and> success_rate (length (filter (\<lambda>g. status g = ''completed'') (goals ag))) (length (goals ag))
             \<noteq> Inl ZeroDivisionError
         \<and> (\<exists>ag'. MonitoringState_run now ag = Inr (ag', STATE_COMPLETED))"
    if "fsm_run loads inps fsm_initial = Inr (ag, STATE_MONITORING)" for ag
  proof -
    have "fsm_invariant (ag, STATE_MONITORING)"
      using fsm_run_invariant[OF initial_invariant that] .
    then have "goals ag \<noteq> []" by simp
    then show ?thesis
      by (cases "goals ag") (simp_all add: MonitoringState_run_def success_rate_def Let_def)
  qed
  ultimately show ?thesis by blast
qed

lemma example_run_to_monitoring:
  "(case fsm_run example_loads [example_alert, example_timeout, example_timeout, example_timeout]
           fsm_initial of
      Inl e \<Rightarrow> False
    | Inr (ag, st) \<Rightarrow> st = STATE_MONITORING \<and> length (goals ag) = 6)"
  by code_simp

text \<open>
  The example alert, of severity 5, taken as far as MONITORING: six goals (the assessment and
  the five of the plan), and the visit of MONITORING returns.
\<close>

theorem C10_monitoring_divisor_witness:
  "\<exists>ag. fsm_run example_loads [example_alert, example_timeout, example_timeout, example_timeout]
           fsm_initial = Inr (ag, STATE_MONITORING)
        \<and> length (goals ag) = 6
        \<and> (\<exists>ag'. MonitoringState_run example_clock ag = Inr (ag', STATE_COMPLETED))"
proof -
  obtain ag where r: "fsm_run example_loads
           [example_alert, example_timeout, example_timeout, example_timeout]
           fsm_initial = Inr (ag, STATE_MONITORING)" and l: "length (goals ag) = 6"
    using example_run_to_monitoring by (auto split: sum.splits)
  from C10_monitoring_divisor[of example_loads
      "[example_alert, example_timeout, example_timeout, example_timeout]" example_clock] r
  have "\<exists>ag'. MonitoringState_run example_clock ag = Inr (ag', STATE_COMPLETED)" by blast
  with r l show ?thesis by blast
qed

subsection \<open>Event identifiers\<close>

lemma digit_char_value: "d < 10 \<Longrightarrow> of_char (digit_char d) - 48 = d"
  by (simp add: digit_char_def)

lemma digits_value_snoc: "digits_value (s @ [c]) = 10 * digits_value s + (of_char c - 48)"
  by (simp add: digits_value_def)

lemma digits_value_str_nat: "digits_value (str_nat n) = n"
proof (induction n rule: str_nat.induct)
  case (1 n)
  show ?case
  proof (cases "n < 10")
    case True
    then show ?thesis
      by (subst str_nat.simps) (simp add: digits_value_def digit_char_value)
  next
    case False
    then have "digits_value (str_nat (n div 10)) = n div 10" using 1 by simp
    with False show ?thesis
      by (subst str_nat.simps) (simp add: digits_value_snoc digit_char_value)
  qed
qed

lemma digits_value_zeros:
  "foldl (\<lambda>a c. 10 * a + (of_char c - 48)) 0 (replicate k (CHR ''0'')) = (0::nat)"
  by (induction k) simp_all

lemma digits_value_fmt_d: "digits_value (fmt_d w n) = n"
  using digits_value_str_nat[of n]
  by (simp add: fmt_d_def digits_value_def digits_value_zeros)

lemma fmt_d_inj: "fmt_d w m = fmt_d w n \<Longrightarrow> m = n"
  by (metis digits_value_fmt_d)

lemma distinct_event_ids_upto: "distinct (event_ids_upto n)"
  unfolding event_ids_upto_def
  by (simp add: distinct_map inj_on_def fmt_d_inj)

lemma event_ids_upto_Suc:
  "event_ids_upto (Suc n) = event_ids_upto n @ [''EVENT-'' @ fmt_d 4 (Suc n)]"
  by (simp add: event_ids_upto_def)

lemma detect_history: "event_history (snd (detect b d t s st)) = event_history (snd st)"
  by (simp add: detect_def create_disaster_event_def Let_def)

lemma detect_ids:
  "map event_id (h @ fst st) = event_ids_upto (event_counter (snd st)) \<Longrightarrow>
   map event_id (h @ fst (detect b d t s st)) =
     event_ids_upto (event_counter (snd (detect b d t s st)))"
  by (simp add: detect_def create_disaster_event_def Let_def event_ids_upto_Suc)

lemma check_for_disasters_ids:
  assumes "ids_in_order env"
  shows "ids_in_order (snd (check_for_disasters d env))"
proof -
  let ?h = "event_history env"
  have 0: "map event_id (?h @ fst ([]::DisasterEvent list, env)) =
           event_ids_upto (event_counter (snd ([]::DisasterEvent list, env)))"
    using assms by (simp add: ids_in_order_def)
  show ?thesis
    unfolding check_for_disasters_eq Let_def ids_in_order_def
    using detect_ids[OF detect_ids[OF detect_ids[OF detect_ids[OF detect_ids[OF 0]]]]]
    by (simp add: detect_history)
qed

lemma update_conditions_ids: "ids_in_order env \<Longrightarrow> ids_in_order (update_conditions d env)"
  by (simp add: ids_in_order_def update_conditions_def Let_def)

lemma env_apply_ids: "ids_in_order env \<Longrightarrow> ids_in_order (env_apply op env)"
  by (cases op) (simp_all add: update_conditions_ids check_for_disasters_ids)

lemma fold_env_apply_ids: "ids_in_order env \<Longrightarrow> ids_in_order (fold env_apply ops env)"
  by (induction ops arbitrary: env) (simp_all add: env_apply_ids)

lemma init_ids: "ids_in_order (DisasterEnvironment_init loc t)"
  by (simp add: ids_in_order_def DisasterEnvironment_init_def event_ids_upto_def)

lemma create_disaster_event_id:
  "event_id (fst (create_disaster_event d dtype sev env)) = ''EVENT-'' @ fmt_d 4 (event_counter env + 1)
   \<and> event_counter (snd (create_disaster_event d dtype sev env)) = event_counter env + 1"
  by (simp add: create_disaster_event_def Let_def)

text \<open>
  C8, as stated, fails for the sensor of the coordination protocol: it has no event counter,
  and two different events that it generates with the same random number carry the same
  identifier.
\<close>

theorem C8_sensor_identifier_collision:
  "generate_disaster example_disaster_draws \<noteq> generate_disaster other_disaster_draws
   \<and> b_event_id (generate_disaster example_disaster_draws) =
       b_event_id (generate_disaster other_disaster_draws)"
  by (simp add: generate_disaster_def example_disaster_draws_def other_disaster_draws_def
      disaster_types_def severity_levels_def empty_body_def)

text \<open>
  C8, amended. An environment numbers its events with its event counter: each creation
  increments the counter by one and gives the event the identifier "EVENT-" followed by the
  new value, zero-padded to four digits; so after every sequence of operations on a new
  environment the identifiers in its history are EVENT-0001, ..., EVENT-n in this order, n
  being the counter, and are pairwise distinct. The sensor of the coordination protocol
  instead gives its event the identifier "EVENT-" followed by the integer it drew.
\<close>

theorem C8_event_identifiers:
  "event_id (fst (create_disaster_event c dtype sev env)) = ''EVENT-'' @ fmt_d 4 (event_counter env + 1)
   \<and> event_counter (snd (create_disaster_event c dtype sev env)) = event_counter env + 1
   \<and> map event_id (event_history (env_run ops (DisasterEnvironment_init loc t))) =
       event_ids_upto (event_counter (env_run ops (DisasterEnvironment_init loc t)))
   \<and> distinct (map event_id (event_history (env_run ops (DisasterEnvironment_init loc t))))
   \<and> b_event_id (generate_disaster d) = Some (''EVENT-'' @ str_int (id_draw d))"
proof -
  have i: "ids_in_order (env_run ops (DisasterEnvironment_init loc t))"
    unfolding env_run_def by (rule fold_env_apply_ids[OF init_ids])
  then have "distinct (map event_id (event_history (env_run ops (DisasterEnvironment_init loc t))))"
    by (simp add: ids_in_order_def distinct_event_ids_upto)
  moreover have "b_event_id (generate_disaster d) = Some (''EVENT-'' @ str_int (id_draw d))"
    by (simp add: generate_disaster_def Let_def empty_body_def split: prod.splits)
  ultimately show ?thesis
    using i create_disaster_event_id[of c dtype sev env] by (simp add: ids_in_order_def)
qed

lemma example_counter:
  "event_counter (env_run example_operations
      (DisasterEnvironment_init ''Disaster Zone Alpha'' ''2026-01-29T09:00:00'')) = 2"
  by (simp add: env_run_def check_for_disasters_eq detect_def create_disaster_event_def
      update_conditions_def DisasterEnvironment_init_def initialize_conditions_def
      example_operations_def example_check_draws_def example_condition_draws_def Let_def)

text \<open>
  Two updates and two checks, each check creating the random event: EVENT-0001 and
  EVENT-0002. The sensor's draw 4711: EVENT-4711.
\<close>

theorem C8_event_identifiers_witness:
  "map event_id (event_history
     (env_run example_operations
        (DisasterEnvironment_init ''Disaster Zone Alpha'' ''2026-01-29T09:00:00''))) =
     [''EVENT-0001'', ''EVENT-0002'']
   \<and> b_event_id (generate_disaster example_disaster_draws) = Some ''EVENT-4711''"
proof -
  have "str_int 4711 = ''4711''" by code_simp
  moreover have "id_draw example_disaster_draws = 4711" by (simp add: example_disaster_draws_def)
  moreover have "event_ids_upto 2 = [''EVENT-0001'', ''EVENT-0002'']"
    by code_simp
  ultimately show ?thesis
    using C8_event_identifiers[of example_creation_draws TORNADO HIGH example_environment
        example_operations "''Disaster Zone Alpha''" "''2026-01-29T09:00:00''"
        example_disaster_draws]
      example_counter
    by simp
qed

end
